theory Spec2Isabelle
  imports Main "HOL-Library.Multiset"
begin

section \<open>Go library functions used by the package\<close>

text \<open>
  Go strings are byte sequences, and so is \<^typ>\<open>string\<close>; text is UTF-8. \<open>Split\<close> takes
  the one-byte separators the package uses.
\<close>

fun HasPrefix :: "string \<Rightarrow> string \<Rightarrow> bool" where
  "HasPrefix s [] = True"
| "HasPrefix [] (p # ps) = False"
| "HasPrefix (c # cs) (p # ps) = (c = p \<and> HasPrefix cs ps)"

fun Contains :: "string \<Rightarrow> string \<Rightarrow> bool" where
  "Contains [] substr = (substr = [])"
| "Contains (c # cs) substr = (HasPrefix (c # cs) substr \<or> Contains cs substr)"

text \<open>
  \<open>strings.TrimSpace\<close> removes the leading and the trailing white space, which is what
  \<open>unicode.IsSpace\<close> accepts: the six ASCII characters tab, line feed, vertical tab,
  form feed, carriage return and space, and the code points U+0085, U+00A0, U+1680,
  U+2000 to U+200A, U+2028, U+2029, U+202F, U+205F and U+3000. A string begins (ends)
  with such a rune exactly when it begins (ends) with the rune's UTF-8 encoding: the
  decoder reads a valid encoding as its rune, reads anything else as U+FFFD, which is no
  white space, and a lead byte is never read as part of the rune before it. So trimming
  removes these encodings from the front, then from the back.
\<close>

definition spaceEncodings :: "string list" where
  "spaceEncodings =
     [[CHR 0x09], [CHR 0x0A], [CHR 0x0B], [CHR 0x0C], [CHR 0x0D], [CHR 0x20],
      [CHR 0xC2, CHR 0x85], [CHR 0xC2, CHR 0xA0], [CHR 0xE1, CHR 0x9A, CHR 0x80],
      [CHR 0xE2, CHR 0x80, CHR 0x80], [CHR 0xE2, CHR 0x80, CHR 0x81],
      [CHR 0xE2, CHR 0x80, CHR 0x82], [CHR 0xE2, CHR 0x80, CHR 0x83],
      [CHR 0xE2, CHR 0x80, CHR 0x84], [CHR 0xE2, CHR 0x80, CHR 0x85],
      [CHR 0xE2, CHR 0x80, CHR 0x86], [CHR 0xE2, CHR 0x80, CHR 0x87],
      [CHR 0xE2, CHR 0x80, CHR 0x88], [CHR 0xE2, CHR 0x80, CHR 0x89],
      [CHR 0xE2, CHR 0x80, CHR 0x8A], [CHR 0xE2, CHR 0x80, CHR 0xA8],
      [CHR 0xE2, CHR 0x80, CHR 0xA9], [CHR 0xE2, CHR 0x80, CHR 0xAF],
      [CHR 0xE2, CHR 0x81, CHR 0x9F], [CHR 0xE3, CHR 0x80, CHR 0x80]]"

text \<open>The length of the first of the encodings that the string begins with; 0 if none.\<close>

fun spaceWidth :: "string list \<Rightarrow> string \<Rightarrow> nat" where
  "spaceWidth [] s = 0"
| "spaceWidth (e # es) s = (if HasPrefix s e then length e else spaceWidth es s)"

fun stripSpaces :: "string list \<Rightarrow> string \<Rightarrow> string" where
  "stripSpaces encs [] = []"
| "stripSpaces encs (c # cs) =
     (case spaceWidth encs (c # cs) of
        0 \<Rightarrow> c # cs
      | Suc n \<Rightarrow> stripSpaces encs (drop n cs))"

definition TrimSpace :: "string \<Rightarrow> string" where
  "TrimSpace s =
     rev (stripSpaces (map rev spaceEncodings) (rev (stripSpaces spaceEncodings s)))"

text \<open>The lower case of an ASCII byte.\<close>

definition lowerByte :: "char \<Rightarrow> char" where
  "lowerByte c = (let n = (of_char c :: nat) in
                  if 65 \<le> n \<and> n \<le> 90 then char_of (n + 32) else c)"

definition isASCII :: "char \<Rightarrow> bool" where
  "isASCII c = ((of_char c :: nat) < 128)"

fun Split :: "string \<Rightarrow> char \<Rightarrow> string list" where
  "Split [] sep = [[]]"
| "Split (c # cs) sep =
     (if c = sep then [] # Split cs sep
      else (case Split cs sep of [] \<Rightarrow> [[c]] | p # ps \<Rightarrow> (c # p) # ps))"

fun Join :: "string list \<Rightarrow> string \<Rightarrow> string" where
  "Join [] sep = []"
| "Join [x] sep = x"
| "Join (x # y # ys) sep = x @ sep @ Join (y # ys) sep"

definition Repeat :: "string \<Rightarrow> nat \<Rightarrow> string" where
  "Repeat s n = concat (replicate n s)"

text \<open>\<open>%d\<close> of \<open>fmt.Sprintf\<close>: the decimal digits, with a minus sign below zero.\<close>

definition digitChar :: "nat \<Rightarrow> char" where
  "digitChar d = char_of (48 + d)"

function natToDec :: "nat \<Rightarrow> string" where
  "natToDec n = (if n < 10 then [digitChar n] else natToDec (n div 10) @ [digitChar (n mod 10)])"
  by pat_completeness auto
termination
  by (relation "measure id") auto

declare natToDec.simps [simp del]

definition Itoa :: "int \<Rightarrow> string" where
  "Itoa i = (if i < 0 then CHR ''-'' # natToDec (nat (- i)) else natToDec (nat i))"

text \<open>
  \<open>bufio.Scanner\<close> with the default \<open>ScanLines\<close>: tokens end at a newline, one trailing
  carriage return is dropped, an empty rest after the last newline is no token, and the
  scan stops at a line that does not fit the buffer of \<open>MaxScanTokenSize\<close> bytes.
\<close>

definition MaxScanTokenSize :: nat where
  "MaxScanTokenSize = 64 * 1024"

definition dropCR :: "string \<Rightarrow> string" where
  "dropCR l = (if l \<noteq> [] \<and> last l = CHR 0x0D then butlast l else l)"

fun scanTokens :: "string list \<Rightarrow> string list" where
  "scanTokens [] = []"
| "scanTokens [l] = (if l = [] \<or> MaxScanTokenSize \<le> length l then [] else [dropCR l])"
| "scanTokens (l # ls) =
     (if MaxScanTokenSize \<le> length l then [] else dropCR l # scanTokens ls)"

definition ScanLines :: "string \<Rightarrow> string list" where
  "ScanLines s = scanTokens (Split s (CHR 0x0A))"

section \<open>Data model (types.go)\<close>

record DeviceInfo =
  Model :: string
  Manufacturer :: string
  AndroidVersion :: string
  APILevel :: string

text \<open>\<open>ProcessingStats\<close>; the mutex makes each method one atomic step.\<close>

record ProcessingStats =
  successCount :: int
  failedDevices :: "string list"
  totalDevices :: int

definition IncrementSuccess :: "ProcessingStats \<Rightarrow> ProcessingStats" where
  "IncrementSuccess ps = ps\<lparr>successCount := successCount ps + 1\<rparr>"

definition AddFailedDevice :: "string \<Rightarrow> ProcessingStats \<Rightarrow> ProcessingStats" where
  "AddFailedDevice deviceSerial ps = ps\<lparr>failedDevices := failedDevices ps @ [deviceSerial]\<rparr>"

definition GetStats :: "ProcessingStats \<Rightarrow> int \<times> string list \<times> int" where
  "GetStats ps = (successCount ps, failedDevices ps, totalDevices ps)"

definition NewProcessingStats :: "int \<Rightarrow> ProcessingStats" where
  "NewProcessingStats n = \<lparr>successCount = 0, failedDevices = [], totalDevices = n\<rparr>"

record AndroidLockScreenDisabler =
  connectedDevices :: "string list"
  targetDevices :: "string list"
  enableLogging :: bool

definition NewAndroidLockScreenDisabler :: "string list \<Rightarrow> AndroidLockScreenDisabler" where
  "NewAndroidLockScreenDisabler targets =
     \<lparr>connectedDevices = [], targetDevices = targets, enableLogging = True\<rparr>"


section \<open>Effects: the outside world and the trace\<close>

text \<open>
  The errors \<open>cmd.CombinedOutput\<close> of package \<open>os/exec\<close> returns, with the text
  \<open>Error()\<close> gives for each. The parts that differ from run to run (numbers, names,
  paths, the message of the wrapped error) are strings the model leaves open.
  \<^item> \<open>*exec.ExitError\<close>, whose text is that of the \<open>ProcessState\<close>: the process exited
    with a status other than 0, was ended or stopped by a signal, or was continued;
  \<^item> \<open>*exec.Error\<close>: the program was not found;
  \<^item> the errors package \<open>exec\<close> makes itself, all of the form \<open>exec: ...\<close>;
  \<^item> \<open>*fs.PathError\<close>, from starting the process or copying its output;
  \<^item> \<open>*os.SyscallError\<close>, from \<open>pipe\<close> or \<open>wait\<close>;
  \<^item> the two errors of a context.
\<close>

datatype goError =
    ExitStatus string
  | Signaled string bool
  | StopSignal string bool
  | Continued bool
  | ExecError string string
  | ExecPackageError string
  | PathError string string string
  | SyscallError string string
  | ContextDeadlineExceeded
  | ContextCanceled

definition coreDumped :: "bool \<Rightarrow> string" where
  "coreDumped core = (if core then '' (core dumped)'' else [])"

fun errorText :: "goError \<Rightarrow> string" where
  "errorText (ExitStatus n) = ''exit status '' @ n"
| "errorText (Signaled name core) = ''signal: '' @ name @ coreDumped core"
| "errorText (StopSignal name core) = ''stop signal: '' @ name @ coreDumped core"
| "errorText (Continued core) = ''continued'' @ coreDumped core"
| "errorText (ExecError name msg) = ''exec: '' @ name @ '': '' @ msg"
| "errorText (ExecPackageError msg) = ''exec: '' @ msg"
| "errorText (PathError operation path msg) = operation @ '' '' @ path @ '': '' @ msg"
| "errorText (SyscallError call msg) = call @ '': '' @ msg"
| "errorText ContextDeadlineExceeded = ''context deadline exceeded''"
| "errorText ContextCanceled = ''context canceled''"

text \<open>
  What one run of an external process gives back to \<open>cmd.CombinedOutput\<close>: the captured
  bytes, the error if there is one, whether the context's deadline had passed when the
  error is inspected, and the exit code of the process.
\<close>

record cmdResult =
  combinedOutput :: string
  runErr :: "goError option"
  deadlineExceeded :: bool
  exitCode :: int

text \<open>
  The platform is a parameter: \<open>windows\<close> is \<open>runtime.GOOS == "windows"\<close>, and
  \<open>spawn\<close> runs an argument vector under a timeout (in seconds) in a world \<open>'w\<close> and
  gives the result and the next world. Nothing is assumed about it, so the devices may
  answer anything at any time. \<open>unicodeLower\<close> is \<open>strings.Map(unicode.ToLower, s)\<close>,
  which \<open>strings.ToLower\<close> calls for a string with a byte outside ASCII; the case
  tables of package \<open>unicode\<close> are not part of this repository, and nothing is
  assumed about them either.
\<close>

record 'w opsys =
  windows :: bool
  spawn :: "nat \<Rightarrow> string list \<Rightarrow> 'w \<Rightarrow> cmdResult \<times> 'w"
  unicodeLower :: "string \<Rightarrow> string"

text \<open>\<open>strings.ToLower\<close>: byte by byte on an ASCII string, through the tables otherwise.\<close>

definition ToLower :: "'w opsys \<Rightarrow> string \<Rightarrow> string" where
  "ToLower os s = (if list_all isASCII s then map lowerByte s else unicodeLower os s)"

datatype event = Exec "string list" | Print string | Sleep nat

record 'w st =
  world :: 'w
  trace :: "event list"

definition emit :: "event \<Rightarrow> 'w st \<Rightarrow> 'w st" where
  "emit e s = s\<lparr>trace := trace s @ [e]\<rparr>"

text \<open>\<open>time.Sleep\<close>, in seconds.\<close>

definition sleep :: "nat \<Rightarrow> 'w st \<Rightarrow> 'w st" where
  "sleep n s = emit (Sleep n) s"

section \<open>Logging and the command executor\<close>

text \<open>The emoji arguments of \<open>log\<close>, as their UTF-8 bytes.\<close>

definition emojiInfo :: string where
  "emojiInfo = [CHR 0xE2, CHR 0x84, CHR 0xB9, CHR 0xEF, CHR 0xB8, CHR 0x8F]"

definition emojiHourglassDone :: string where
  "emojiHourglassDone = [CHR 0xE2, CHR 0x8C, CHR 0x9B]"

definition emojiAlarmClock :: string where
  "emojiAlarmClock = [CHR 0xE2, CHR 0x8F, CHR 0xB0]"

definition emojiStopwatch :: string where
  "emojiStopwatch = [CHR 0xE2, CHR 0x8F, CHR 0xB1, CHR 0xEF, CHR 0xB8, CHR 0x8F]"

definition emojiHourglass :: string where
  "emojiHourglass = [CHR 0xE2, CHR 0x8F, CHR 0xB3]"

definition emojiGear :: string where
  "emojiGear = [CHR 0xE2, CHR 0x9A, CHR 0x99, CHR 0xEF, CHR 0xB8, CHR 0x8F]"

definition emojiWarning :: string where
  "emojiWarning = [CHR 0xE2, CHR 0x9A, CHR 0xA0, CHR 0xEF, CHR 0xB8, CHR 0x8F]"

definition emojiCheck :: string where
  "emojiCheck = [CHR 0xE2, CHR 0x9C, CHR 0x85]"

definition emojiCross :: string where
  "emojiCross = [CHR 0xE2, CHR 0x9D, CHR 0x8C]"

definition emojiGlobe :: string where
  "emojiGlobe = [CHR 0xF0, CHR 0x9F, CHR 0x8C, CHR 0x90]"

definition emojiParty :: string where
  "emojiParty = [CHR 0xF0, CHR 0x9F, CHR 0x8E, CHR 0x89]"

definition emojiConfetti :: string where
  "emojiConfetti = [CHR 0xF0, CHR 0x9F, CHR 0x8E, CHR 0x8A]"

definition emojiTarget :: string where
  "emojiTarget = [CHR 0xF0, CHR 0x9F, CHR 0x8E, CHR 0xAF]"

definition emojiClipboard :: string where
  "emojiClipboard = [CHR 0xF0, CHR 0x9F, CHR 0x93, CHR 0x8B]"

definition emojiPhone :: string where
  "emojiPhone = [CHR 0xF0, CHR 0x9F, CHR 0x93, CHR 0xB1]"

definition emojiArrows :: string where
  "emojiArrows = [CHR 0xF0, CHR 0x9F, CHR 0x94, CHR 0x84]"

definition emojiMagnifier :: string where
  "emojiMagnifier = [CHR 0xF0, CHR 0x9F, CHR 0x94, CHR 0x8D]"

definition emojiLockKey :: string where
  "emojiLockKey = [CHR 0xF0, CHR 0x9F, CHR 0x94, CHR 0x90]"

definition emojiKey :: string where
  "emojiKey = [CHR 0xF0, CHR 0x9F, CHR 0x94, CHR 0x91]"

definition emojiLock :: string where
  "emojiLock = [CHR 0xF0, CHR 0x9F, CHR 0x94, CHR 0x92]"

definition emojiWrench :: string where
  "emojiWrench = [CHR 0xF0, CHR 0x9F, CHR 0x94, CHR 0xA7]"

definition emojiSad :: string where
  "emojiSad = [CHR 0xF0, CHR 0x9F, CHR 0x98, CHR 0x9E]"

definition emojiRocket :: string where
  "emojiRocket = [CHR 0xF0, CHR 0x9F, CHR 0x9A, CHR 0x80]"

definition emojiBroom :: string where
  "emojiBroom = [CHR 0xF0, CHR 0x9F, CHR 0xA7, CHR 0xB9]"

text \<open>
  \<open>log\<close>: nothing when logging is switched off; the default emoji for an empty one;
  then one line on standard output.
\<close>

definition log :: "AndroidLockScreenDisabler \<Rightarrow> string \<Rightarrow> string \<Rightarrow> 'w st \<Rightarrow> 'w st" where
  "log a message emoji s =
     (if \<not> enableLogging a then s
      else emit (Print ((if emoji = [] then emojiInfo else emoji) @ '' '' @ message @ [CHR 0x0A])) s)"

text \<open>The argument vector \<open>runADBCommand\<close> builds for a command and a device.\<close>

definition fullCommand :: "string \<Rightarrow> string \<Rightarrow> string" where
  "fullCommand command deviceSerial =
     (if deviceSerial \<noteq> [] then ''adb -s '' @ deviceSerial @ '' '' @ command
      else ''adb '' @ command)"

definition adbArgv :: "'w opsys \<Rightarrow> string \<Rightarrow> string \<Rightarrow> string list" where
  "adbArgv os command deviceSerial =
     (if windows os then [''cmd'', ''/c'', fullCommand command deviceSerial]
      else [''sh'', ''-c'', fullCommand command deviceSerial])"

definition commandTimeout :: nat where
  "commandTimeout = 30"

definition runADBCommand ::
  "'w opsys \<Rightarrow> string \<Rightarrow> string \<Rightarrow> 'w st \<Rightarrow> (bool \<times> string \<times> string) \<times> 'w st" where
  "runADBCommand os command deviceSerial s =
     (let argv = adbArgv os command deviceSerial;
          (r, w') = spawn os commandTimeout argv (world s);
          s' = emit (Exec argv) (s\<lparr>world := w'\<rparr>)
      in case runErr r of
           Some err \<Rightarrow>
             if deadlineExceeded r then ((False, [], ''Command timed out''), s')
             else ((False, [], errorText err), s')
         | None \<Rightarrow> ((exitCode r = 0, TrimSpace (combinedOutput r), []), s'))"

section \<open>Texts\<close>

text \<open>
  The string constants of the package: command lines, log messages, the words the
  inspections look for and the descriptions they return. Each constant is named after
  its content.
\<close>

definition txt_Trying_Method_1_locksettings_on_device :: string where
  "txt_Trying_Method_1_locksettings_on_device = ''Trying Method 1 (locksettings) on device ''"

definition txt_dots :: string where
  "txt_dots = ''...''"

definition txt_shell_locksettings_clear :: string where
  "txt_shell_locksettings_clear = ''shell locksettings clear''"

definition txt_Cleared_existing_lock_settings_on :: string where
  "txt_Cleared_existing_lock_settings_on = ''Cleared existing lock settings on ''"

definition txt_shell_locksettings_set_disabled_true :: string where
  "txt_shell_locksettings_set_disabled_true = ''shell locksettings set-disabled true''"

definition txt_Method_1_succeeded_on_device :: string where
  "txt_Method_1_succeeded_on_device = ''Method 1 succeeded on device ''"

definition txt_Method_1_failed_on_device :: string where
  "txt_Method_1_failed_on_device = ''Method 1 failed on device ''"

definition txt_Trying_Method_2_settings_secure_on_device :: string where
  "txt_Trying_Method_2_settings_secure_on_device = ''Trying Method 2 (settings secure) on device ''"

definition txt_shell_settings_put_secure_lockscreen_disabled_1 :: string where
  "txt_shell_settings_put_secure_lockscreen_disabled_1 = ''shell settings put secure lockscreen.disabled 1''"

definition txt_Method_2_succeeded_on_device :: string where
  "txt_Method_2_succeeded_on_device = ''Method 2 succeeded on device ''"

definition txt_Method_2_failed_on_device :: string where
  "txt_Method_2_failed_on_device = ''Method 2 failed on device ''"

definition txt_Trying_Method_3_system_settings_on_device :: string where
  "txt_Trying_Method_3_system_settings_on_device = ''Trying Method 3 (system settings) on device ''"

definition txt_shell_settings_put_system_lockscreen_disabled_1 :: string where
  "txt_shell_settings_put_system_lockscreen_disabled_1 = ''shell settings put system lockscreen_disabled 1''"

definition txt_Method_3_succeeded_on_device :: string where
  "txt_Method_3_succeeded_on_device = ''Method 3 succeeded on device ''"

definition txt_Method_3_failed_on_device :: string where
  "txt_Method_3_failed_on_device = ''Method 3 failed on device ''"

definition txt_Trying_Method_4_global_settings_on_device :: string where
  "txt_Trying_Method_4_global_settings_on_device = ''Trying Method 4 (global settings) on device ''"

definition txt_shell_settings_put_global_device_provisioned_1 :: string where
  "txt_shell_settings_put_global_device_provisioned_1 = ''shell settings put global device_provisioned 1''"

definition txt_shell_settings_put_secure_user_setup_complete_1 :: string where
  "txt_shell_settings_put_secure_user_setup_complete_1 = ''shell settings put secure user_setup_complete 1''"

definition txt_Method_4_partially_succeeded_on_device :: string where
  "txt_Method_4_partially_succeeded_on_device = ''Method 4 partially succeeded on device ''"

definition txt_Method_4_failed_on_device :: string where
  "txt_Method_4_failed_on_device = ''Method 4 failed on device ''"

definition txt_device :: string where
  "txt_device = ''device''"

definition txt_Warning_Device :: string where
  "txt_Warning_Device = ''Warning: Device ''"

definition txt_sp_not_found_in_connected_devices :: string where
  "txt_sp_not_found_in_connected_devices = '' not found in connected devices''"

definition txt_Scanning_for_connected_Android_devices :: string where
  "txt_Scanning_for_connected_Android_devices = ''Scanning for connected Android devices...''"

definition txt_devices :: string where
  "txt_devices = ''devices''"

definition txt_Failed_to_get_device_list :: string where
  "txt_Failed_to_get_device_list = ''Failed to get device list!''"

definition txt_Filtering_devices_based_on_specified_UDIDs :: string where
  "txt_Filtering_devices_based_on_specified_UDIDs = ''Filtering devices based on specified UDIDs: ''"

definition txt_Found :: string where
  "txt_Found = ''Found ''"

definition txt_sp_device_s_to_process :: string where
  "txt_sp_device_s_to_process = '' device(s) to process: ''"

definition txt_Total_connected_devices :: string where
  "txt_Total_connected_devices = ''Total connected devices: ''"

definition txt_comma_Processing :: string where
  "txt_comma_Processing = '', Processing: ''"

definition txt_None_of_the_specified_devices_are_connected :: string where
  "txt_None_of_the_specified_devices_are_connected = ''None of the specified devices are connected!''"

definition txt_No_connected_devices_found :: string where
  "txt_No_connected_devices_found = ''No connected devices found!''"

definition txt_Unknown :: string where
  "txt_Unknown = ''Unknown''"

definition txt_shell_getprop_ro_product_model :: string where
  "txt_shell_getprop_ro_product_model = ''shell getprop ro.product.model''"

definition txt_shell_getprop_ro_product_manufacturer :: string where
  "txt_shell_getprop_ro_product_manufacturer = ''shell getprop ro.product.manufacturer''"

definition txt_shell_getprop_ro_build_version_release :: string where
  "txt_shell_getprop_ro_build_version_release = ''shell getprop ro.build.version.release''"

definition txt_shell_getprop_ro_build_version_sdk :: string where
  "txt_shell_getprop_ro_build_version_sdk = ''shell getprop ro.build.version.sdk''"

definition txt_Rebooting_device :: string where
  "txt_Rebooting_device = ''Rebooting device ''"

definition txt_reboot :: string where
  "txt_reboot = ''reboot''"

definition txt_Reboot_command_sent_to_device :: string where
  "txt_Reboot_command_sent_to_device = ''Reboot command sent to device ''"

definition txt_Failed_to_reboot_device :: string where
  "txt_Failed_to_reboot_device = ''Failed to reboot device ''"

definition txt_shell_echo :: string where
  "txt_shell_echo = ''shell echo ''"

definition txt_test :: string where
  "txt_test = ''test''"

definition txt_get_state :: string where
  "txt_get_state = ''get-state''"

definition txt_Device :: string where
  "txt_Device = ''Device ''"

definition txt_sp_detected_waiting_for_system_to_fully_boot :: string where
  "txt_sp_detected_waiting_for_system_to_fully_boot = '' detected, waiting for system to fully boot...''"

definition txt_sp_is_ready :: string where
  "txt_sp_is_ready = '' is ready!''"

definition txt_Still_waiting_for_device :: string where
  "txt_Still_waiting_for_device = ''Still waiting for device ''"

definition txt_dots_lparen :: string where
  "txt_dots_lparen = ''... (''"

definition txt_sp_minutes_rparen :: string where
  "txt_sp_minutes_rparen = '' minutes)''"

definition txt_Timeout_waiting_for_device :: string where
  "txt_Timeout_waiting_for_device = ''Timeout waiting for device ''"

definition txt_sp_to_be_ready_after :: string where
  "txt_sp_to_be_ready_after = '' to be ready after ''"

definition txt_sp_minutes :: string where
  "txt_sp_minutes = '' minutes''"

definition txt_Waiting_for_device :: string where
  "txt_Waiting_for_device = ''Waiting for device ''"

definition txt_sp_to_be_ready_after_reboot :: string where
  "txt_sp_to_be_ready_after_reboot = '' to be ready after reboot...''"

definition txt_Checking_permissions_for_device :: string where
  "txt_Checking_permissions_for_device = ''Checking permissions for device ''"

definition txt_No_shell_access_to_device :: string where
  "txt_No_shell_access_to_device = ''No shell access to device ''"

definition txt_shell_settings_list_secure :: string where
  "txt_shell_settings_list_secure = ''shell settings list secure''"

definition txt_Cannot_access_settings_on_device :: string where
  "txt_Cannot_access_settings_on_device = ''Cannot access settings on device ''"

definition txt_sp_has_necessary_permissions :: string where
  "txt_sp_has_necessary_permissions = '' has necessary permissions''"

definition txt_null :: string where
  "txt_null = ''null''"

definition txt_lock_pattern_enabled :: string where
  "txt_lock_pattern_enabled = ''lock_pattern_enabled''"

definition txt_Device_has_lock_pattern_enabled :: string where
  "txt_Device_has_lock_pattern_enabled = ''Device has lock pattern enabled''"

definition txt_password_type :: string where
  "txt_password_type = ''password_type''"

definition txt_Device_has_password_type_configured_type :: string where
  "txt_Device_has_password_type_configured_type = ''Device has password type configured (type: ''"

definition txt_lockscreen_disabled :: string where
  "txt_lockscreen_disabled = ''lockscreen.disabled''"

definition txt_Lock_screen_is_explicitly_enabled_in_settings :: string where
  "txt_Lock_screen_is_explicitly_enabled_in_settings = ''Lock screen is explicitly enabled in settings''"

definition txt_shell_settings_get_secure_lock_pattern_enabled :: string where
  "txt_shell_settings_get_secure_lock_pattern_enabled = ''shell settings get secure lock_pattern_enabled''"

definition txt_shell_settings_get_secure_lockscreen_password_type :: string where
  "txt_shell_settings_get_secure_lockscreen_password_type = ''shell settings get secure lockscreen.password_type''"

definition txt_shell_settings_get_secure_lockscreen_disabled :: string where
  "txt_shell_settings_get_secure_lockscreen_disabled = ''shell settings get secure lockscreen.disabled''"

definition txt_Checking_if_device :: string where
  "txt_Checking_if_device = ''Checking if device ''"

definition txt_sp_has_existing_lock_screen_configured :: string where
  "txt_sp_has_existing_lock_screen_configured = '' has existing lock screen configured...''"

definition txt_shell_dumpsys_trust :: string where
  "txt_shell_dumpsys_trust = ''shell dumpsys trust''"

definition txt_isdevicesecure_true :: string where
  "txt_isdevicesecure_true = ''isdevicesecure=true''"

definition txt_iskeyguardsecure_true :: string where
  "txt_iskeyguardsecure_true = ''iskeyguardsecure=true''"

definition txt_Device_has_secure_lock_screen_detected_via_trust_manager :: string where
  "txt_Device_has_secure_lock_screen_detected_via_trust_manager = ''Device has secure lock screen (detected via trust manager)''"

definition txt_shell_locksettings_get_disabled :: string where
  "txt_shell_locksettings_get_disabled = ''shell locksettings get-disabled''"

definition txt_true :: string where
  "txt_true = ''true''"

definition txt_Device_has_lock_configured_detected_via_locksettings :: string where
  "txt_Device_has_lock_configured_detected_via_locksettings = ''Device has lock configured (detected via locksettings)''"

definition txt_shell_dumpsys_activity_services_KeyguardService :: string where
  "txt_shell_dumpsys_activity_services_KeyguardService = ''shell dumpsys activity services KeyguardService''"

definition txt_secure_true :: string where
  "txt_secure_true = ''secure=true''"

definition txt_enabled_true :: string where
  "txt_enabled_true = ''enabled=true''"

definition txt_Device_has_keyguard_enabled_detected_via_KeyguardService :: string where
  "txt_Device_has_keyguard_enabled_detected_via_KeyguardService = ''Device has keyguard enabled (detected via KeyguardService)''"

definition txt_shell_dumpsys_device_policy :: string where
  "txt_shell_dumpsys_device_policy = ''shell dumpsys device_policy''"

definition txt_passwordquality :: string where
  "txt_passwordquality = ''passwordquality''"

definition txt_minimumpasswordlength :: string where
  "txt_minimumpasswordlength = ''minimumpasswordlength''"

definition txt_Device_has_admin_enforced_password_policy :: string where
  "txt_Device_has_admin_enforced_password_policy = ''Device has admin-enforced password policy''"

definition txt_No_lock_screen_detected :: string where
  "txt_No_lock_screen_detected = ''No lock screen detected''"

definition txt_mdreaminglockscreen :: string where
  "txt_mdreaminglockscreen = ''mdreaminglockscreen''"

definition txt_mshowingleckscreen :: string where
  "txt_mshowingleckscreen = ''mshowingleckscreen''"

definition txt_keyguardcontroller :: string where
  "txt_keyguardcontroller = ''keyguardcontroller''"

definition txt_mshowingleckscreen_true :: string where
  "txt_mshowingleckscreen_true = ''mshowingleckscreen=true''"

definition txt_mdreaminglockscreen_true :: string where
  "txt_mdreaminglockscreen_true = ''mdreaminglockscreen=true''"

definition txt_keyguardshowing_true :: string where
  "txt_keyguardshowing_true = ''keyguardshowing=true''"

definition txt_mwakefulness :: string where
  "txt_mwakefulness = ''mwakefulness''"

definition txt_display_power :: string where
  "txt_display_power = ''display power''"

definition txt_asleep :: string where
  "txt_asleep = ''asleep''"

definition txt_dozing :: string where
  "txt_dozing = ''dozing''"

definition txt_mresumedactivity :: string where
  "txt_mresumedactivity = ''mresumedactivity''"

definition txt_mfocusedactivity :: string where
  "txt_mfocusedactivity = ''mfocusedactivity''"

definition txt_keyguard :: string where
  "txt_keyguard = ''keyguard''"

definition txt_lockscreen :: string where
  "txt_lockscreen = ''lockscreen''"

definition txt_bouncer :: string where
  "txt_bouncer = ''bouncer''"

definition txt_Checking_lock_screen_status_on_device :: string where
  "txt_Checking_lock_screen_status_on_device = ''Checking lock screen status on device ''"

definition txt_shell_dumpsys_window :: string where
  "txt_shell_dumpsys_window = ''shell dumpsys window''"

definition txt_shell_dumpsys_power :: string where
  "txt_shell_dumpsys_power = ''shell dumpsys power''"

definition txt_shell_dumpsys_activity_activities :: string where
  "txt_shell_dumpsys_activity_activities = ''shell dumpsys activity activities''"

definition txt_unable_to_determine_lock_screen_status_definitively :: string where
  "txt_unable_to_determine_lock_screen_status_definitively = ''unable to determine lock screen status definitively''"

definition txt_sp_Lock_screen_successfully_removed_on_device :: string where
  "txt_sp_Lock_screen_successfully_removed_on_device = '' Lock screen successfully removed on device ''"

definition txt_sp_Lock_screen_is_still_present_on_device :: string where
  "txt_sp_Lock_screen_is_still_present_on_device = '' Lock screen is still present on device ''"

definition txt_shell_input_keyevent_KEYCODE_WAKEUP :: string where
  "txt_shell_input_keyevent_KEYCODE_WAKEUP = ''shell input keyevent KEYCODE_WAKEUP''"

definition txt_Validating_lock_screen_removal_on_device :: string where
  "txt_Validating_lock_screen_removal_on_device = ''Validating lock screen removal on device ''"

definition txt_Warning_Could_not_definitively_determine_lock_screen_status_on_device :: string where
  "txt_Warning_Could_not_definitively_determine_lock_screen_status_on_device = ''Warning: Could not definitively determine lock screen status on device ''"

definition txt_Still_unable_to_determine_lock_screen_status_on_device :: string where
  "txt_Still_unable_to_determine_lock_screen_status_on_device = ''Still unable to determine lock screen status on device ''"

definition txt_sp_Starting_lock_screen_disable_process :: string where
  "txt_sp_Starting_lock_screen_disable_process = '' Starting lock screen disable process''"

definition txt_sp_Device :: string where
  "txt_sp_Device = '' Device: ''"

definition txt_sp_Android :: string where
  "txt_sp_Android = '' (Android ''"

definition txt_comma_API :: string where
  "txt_comma_API = '', API ''"

definition txt_sp_Insufficient_permissions :: string where
  "txt_sp_Insufficient_permissions = '' Insufficient permissions. ''"

definition txt_Make_sure_USB_debugging_is_enabled_and_device_is_authorized :: string where
  "txt_Make_sure_USB_debugging_is_enabled_and_device_is_authorized = ''Make sure USB debugging is enabled and device is authorized.''"

definition txt_sp_Device_is_already_unlocked_or_has_no_lock_configured :: string where
  "txt_sp_Device_is_already_unlocked_or_has_no_lock_configured = '' Device is already unlocked or has no lock configured''"

definition txt_sp_No_lock_screen_detected_on_device :: string where
  "txt_sp_No_lock_screen_detected_on_device = '' No lock screen detected on device. ''"

definition txt_Skipping_lock_screen_disable_process :: string where
  "txt_Skipping_lock_screen_disable_process = ''Skipping lock screen disable process.''"

definition txt_sp_Lock_screen_detected :: string where
  "txt_sp_Lock_screen_detected = '' Lock screen detected: ''"

definition txt_sp_Proceeding_with_lock_screen_disable_process :: string where
  "txt_sp_Proceeding_with_lock_screen_disable_process = '' Proceeding with lock screen disable process...''"

definition txt_sp_All_methods_failed :: string where
  "txt_sp_All_methods_failed = '' All methods failed''"

definition txt_sp_Rebooting_device_to_apply_lock_screen_changes :: string where
  "txt_sp_Rebooting_device_to_apply_lock_screen_changes = '' Rebooting device to apply lock screen changes...''"

definition txt_sp_Failed_to_reboot_device :: string where
  "txt_sp_Failed_to_reboot_device = '' Failed to reboot device, ''"

definition txt_but_lock_screen_settings_were_applied :: string where
  "txt_but_lock_screen_settings_were_applied = ''but lock screen settings were applied''"

definition txt_sp_Waiting_for_device_to_be_ready_after_reboot :: string where
  "txt_sp_Waiting_for_device_to_be_ready_after_reboot = '' Waiting for device to be ready after reboot ''"

definition txt_up_to_5_minutes :: string where
  "txt_up_to_5_minutes = ''(up to 5 minutes)...''"

definition txt_sp_Device_did_not_become_ready_within_5_minutes :: string where
  "txt_sp_Device_did_not_become_ready_within_5_minutes = '' Device did not become ready within 5 minutes ''"

definition txt_after_reboot :: string where
  "txt_after_reboot = ''after reboot''"

definition txt_sp_Successfully_disabled_and_validated :: string where
  "txt_sp_Successfully_disabled_and_validated = '' Successfully disabled and validated ''"

definition txt_lock_screen_removal :: string where
  "txt_lock_screen_removal = ''lock screen removal! ''"

definition txt_sp_Lock_screen_settings_were_applied :: string where
  "txt_sp_Lock_screen_settings_were_applied = '' Lock screen settings were applied, ''"

definition txt_but_validation_failed_after_reboot :: string where
  "txt_but_validation_failed_after_reboot = ''but validation failed after reboot''"

definition txt_Processing :: string where
  "txt_Processing = ''Processing ''"

definition txt_sp_device_s_concurrently :: string where
  "txt_sp_device_s_concurrently = '' device(s) concurrently...''"

definition txt_Waiting_for_all_devices_to_complete_processing :: string where
  "txt_Waiting_for_all_devices_to_complete_processing = ''Waiting for all devices to complete processing...''"

definition txt_sp_Warning_Device :: string where
  "txt_sp_Warning_Device = '' Warning: Device ''"

section \<open>Remediation strategies\<close>

definition disableLockscreenMethod1 ::
  "AndroidLockScreenDisabler \<Rightarrow> 'w opsys \<Rightarrow> string \<Rightarrow> 'w st \<Rightarrow> bool \<times> 'w st" where
  "disableLockscreenMethod1 a os deviceSerial s0 =
     (let s1 = log a (txt_Trying_Method_1_locksettings_on_device @ deviceSerial @ txt_dots) emojiKey s0;
          ((cleared, _, _), s2) = runADBCommand os txt_shell_locksettings_clear deviceSerial s1;
          s3 = (if cleared
                then log a (txt_Cleared_existing_lock_settings_on @ deviceSerial) emojiBroom s2
                else s2);
          ((success, _, errorMsg), s4) =
             runADBCommand os txt_shell_locksettings_set_disabled_true deviceSerial s3
      in if success
         then (True, log a (txt_Method_1_succeeded_on_device @ deviceSerial @ ''!'') emojiCheck s4)
         else (False, log a (txt_Method_1_failed_on_device @ deviceSerial @ '': '' @ errorMsg)
                        emojiCross s4))"

definition disableLockscreenMethod2 ::
  "AndroidLockScreenDisabler \<Rightarrow> 'w opsys \<Rightarrow> string \<Rightarrow> 'w st \<Rightarrow> bool \<times> 'w st" where
  "disableLockscreenMethod2 a os deviceSerial s0 =
     (let s1 = log a (txt_Trying_Method_2_settings_secure_on_device @ deviceSerial @ txt_dots) emojiGear s0;
          ((success, _, errorMsg), s2) =
             runADBCommand os txt_shell_settings_put_secure_lockscreen_disabled_1 deviceSerial s1
      in if success
         then (True, log a (txt_Method_2_succeeded_on_device @ deviceSerial @ ''!'') emojiCheck s2)
         else (False, log a (txt_Method_2_failed_on_device @ deviceSerial @ '': '' @ errorMsg)
                        emojiCross s2))"

definition disableLockscreenMethod3 ::
  "AndroidLockScreenDisabler \<Rightarrow> 'w opsys \<Rightarrow> string \<Rightarrow> 'w st \<Rightarrow> bool \<times> 'w st" where
  "disableLockscreenMethod3 a os deviceSerial s0 =
     (let s1 = log a (txt_Trying_Method_3_system_settings_on_device @ deviceSerial @ txt_dots) emojiWrench s0;
          ((success, _, errorMsg), s2) =
             runADBCommand os txt_shell_settings_put_system_lockscreen_disabled_1 deviceSerial s1
      in if success
         then (True, log a (txt_Method_3_succeeded_on_device @ deviceSerial @ ''!'') emojiCheck s2)
         else (False, log a (txt_Method_3_failed_on_device @ deviceSerial @ '': '' @ errorMsg)
                        emojiCross s2))"

text \<open>
  Method 4 runs both commands and counts the successes; the loop over the two commands
  is \<open>method4Commands\<close>, with the counter as accumulator.
\<close>

fun method4Commands :: "'w opsys \<Rightarrow> string \<Rightarrow> string list \<Rightarrow> int \<Rightarrow> 'w st \<Rightarrow> int \<times> 'w st" where
  "method4Commands os deviceSerial [] successCnt s = (successCnt, s)"
| "method4Commands os deviceSerial (cmd # cmds) successCnt s =
     (let ((success, _, _), s') = runADBCommand os cmd deviceSerial s
      in method4Commands os deviceSerial cmds (if success then successCnt + 1 else successCnt) s')"

definition disableLockscreenMethod4 ::
  "AndroidLockScreenDisabler \<Rightarrow> 'w opsys \<Rightarrow> string \<Rightarrow> 'w st \<Rightarrow> bool \<times> 'w st" where
  "disableLockscreenMethod4 a os deviceSerial s0 =
     (let s1 = log a (txt_Trying_Method_4_global_settings_on_device @ deviceSerial @ txt_dots) emojiGlobe s0;
          commands = [txt_shell_settings_put_global_device_provisioned_1,
                      txt_shell_settings_put_secure_user_setup_complete_1];
          (successCnt, s2) = method4Commands os deviceSerial commands 0 s1
      in if successCnt > 0
         then (True, log a (txt_Method_4_partially_succeeded_on_device @ deviceSerial @ ''!'')
                       emojiCheck s2)
         else (False, log a (txt_Method_4_failed_on_device @ deviceSerial) emojiCross s2))"

text \<open>
  \<open>DisableLockScreen\<close>: each method runs inside a function literal, and the
  \<open>return\<close> after a successful method leaves that literal only, so the loop goes on
  to the next method; the function ends with \<open>return false\<close>. (A method that panics
  is recovered and logged in the source; the modelled methods are total, so that branch
  is not reached.)
\<close>

fun DisableLockScreen_loop ::
  "(string \<Rightarrow> 'w st \<Rightarrow> bool \<times> 'w st) list \<Rightarrow> string \<Rightarrow> 'w st \<Rightarrow> 'w st" where
  "DisableLockScreen_loop [] deviceSerial s = s"
| "DisableLockScreen_loop (method # methods) deviceSerial s =
     (let (ok, s1) = method deviceSerial s
      in DisableLockScreen_loop methods deviceSerial (if ok then s1 else sleep 1 s1))"

definition methodList ::
  "AndroidLockScreenDisabler \<Rightarrow> 'w opsys \<Rightarrow> (string \<Rightarrow> 'w st \<Rightarrow> bool \<times> 'w st) list" where
  "methodList a os =
     [disableLockscreenMethod1 a os, disableLockscreenMethod2 a os,
      disableLockscreenMethod3 a os, disableLockscreenMethod4 a os]"

definition DisableLockScreen ::
  "AndroidLockScreenDisabler \<Rightarrow> 'w opsys \<Rightarrow> string \<Rightarrow> 'w st \<Rightarrow> bool \<times> 'w st" where
  "DisableLockScreen a os deviceSerial s =
     (False, DisableLockScreen_loop (methodList a os) deviceSerial s)"

section \<open>Device directory\<close>

definition tabDevice :: string where
  "tabDevice = CHR 0x09 # txt_device"

text \<open>The scanner loop of \<open>GetConnectedDevices\<close>, with its \<open>firstLine\<close> flag.\<close>

fun parseDeviceLines :: "string list \<Rightarrow> bool \<Rightarrow> string list \<Rightarrow> string list" where
  "parseDeviceLines [] firstLine allDevices = allDevices"
| "parseDeviceLines (text # rest) firstLine allDevices =
     (let line = TrimSpace text
      in if firstLine then parseDeviceLines rest False allDevices
         else if line \<noteq> [] \<and> Contains line tabDevice
         then (case Split line (CHR 0x09) of
                 [] \<Rightarrow> parseDeviceLines rest False allDevices
               | p # ps \<Rightarrow> parseDeviceLines rest False (allDevices @ [p]))
         else parseDeviceLines rest False allDevices)"

text \<open>\<open>deviceMap\<close>: a Go map from identifiers to \<open>bool\<close>; a missing key reads as false.\<close>

definition makeDeviceMap :: "string list \<Rightarrow> (string \<rightharpoonup> bool)" where
  "makeDeviceMap allDevices = fold (\<lambda>device m. m(device \<mapsto> True)) allDevices Map.empty"

definition mapIndex :: "(string \<rightharpoonup> bool) \<Rightarrow> string \<Rightarrow> bool" where
  "mapIndex m k = (case m k of None \<Rightarrow> False | Some b \<Rightarrow> b)"

fun filterTargets ::
  "AndroidLockScreenDisabler \<Rightarrow> (string \<rightharpoonup> bool) \<Rightarrow> string list \<Rightarrow> string list \<Rightarrow> 'w st
   \<Rightarrow> string list \<times> 'w st" where
  "filterTargets a deviceMap [] devices s = (devices, s)"
| "filterTargets a deviceMap (targetDevice # rest) devices s =
     (if mapIndex deviceMap targetDevice
      then filterTargets a deviceMap rest (devices @ [targetDevice]) s
      else filterTargets a deviceMap rest devices
             (log a (txt_Warning_Device @ targetDevice @ txt_sp_not_found_in_connected_devices)
                emojiWarning s))"

definition GetConnectedDevices ::
  "AndroidLockScreenDisabler \<Rightarrow> 'w opsys \<Rightarrow> 'w st
   \<Rightarrow> string list \<times> AndroidLockScreenDisabler \<times> 'w st" where
  "GetConnectedDevices a os s0 =
     (let s1 = log a txt_Scanning_for_connected_Android_devices emojiPhone s0;
          ((success, output, _), s2) = runADBCommand os txt_devices [] s1
      in if \<not> success then ([], a, log a txt_Failed_to_get_device_list emojiCross s2)
         else
           let allDevices = parseDeviceLines (ScanLines output) True [];
               (devices, s3) =
                 (if length (targetDevices a) > 0
                  then filterTargets a (makeDeviceMap allDevices) (targetDevices a) []
                         (log a (txt_Filtering_devices_based_on_specified_UDIDs
                                 @ Join (targetDevices a) '', '') emojiTarget s2)
                  else (allDevices, s2));
               s4 =
                 (if length devices > 0
                  then (let s = log a (txt_Found @ Itoa (int (length devices))
                                       @ txt_sp_device_s_to_process @ Join devices '', '')
                                  emojiTarget s3
                        in if length (targetDevices a) > 0
                           then log a (txt_Total_connected_devices @ Itoa (int (length allDevices))
                                       @ txt_comma_Processing @ Itoa (int (length devices)))
                                  emojiInfo s
                           else s)
                  else if length (targetDevices a) > 0
                  then log a txt_None_of_the_specified_devices_are_connected emojiCross s3
                  else log a txt_No_connected_devices_found emojiCross s3)
           in (devices, a\<lparr>connectedDevices := devices\<rparr>, s4))"

definition GetDeviceInfo ::
  "AndroidLockScreenDisabler \<Rightarrow> 'w opsys \<Rightarrow> string \<Rightarrow> 'w st \<Rightarrow> DeviceInfo \<times> 'w st" where
  "GetDeviceInfo a os deviceSerial s0 =
     (let info0 = \<lparr>Model = txt_Unknown, Manufacturer = txt_Unknown,
                   AndroidVersion = txt_Unknown, APILevel = txt_Unknown\<rparr>;
          ((ok1, out1, _), s1) = runADBCommand os txt_shell_getprop_ro_product_model deviceSerial s0;
          info1 = (if ok1 \<and> out1 \<noteq> [] then info0\<lparr>Model := out1\<rparr> else info0);
          ((ok2, out2, _), s2) =
             runADBCommand os txt_shell_getprop_ro_product_manufacturer deviceSerial s1;
          info2 = (if ok2 \<and> out2 \<noteq> [] then info1\<lparr>Manufacturer := out2\<rparr> else info1);
          ((ok3, out3, _), s3) =
             runADBCommand os txt_shell_getprop_ro_build_version_release deviceSerial s2;
          info3 = (if ok3 \<and> out3 \<noteq> [] then info2\<lparr>AndroidVersion := out3\<rparr> else info2);
          ((ok4, out4, _), s4) =
             runADBCommand os txt_shell_getprop_ro_build_version_sdk deviceSerial s3;
          info4 = (if ok4 \<and> out4 \<noteq> [] then info3\<lparr>APILevel := out4\<rparr> else info3)
      in (info4, s4))"

section \<open>Reboot and readiness\<close>

definition RebootDevice ::
  "AndroidLockScreenDisabler \<Rightarrow> 'w opsys \<Rightarrow> string \<Rightarrow> 'w st \<Rightarrow> bool \<times> 'w st" where
  "RebootDevice a os deviceSerial s0 =
     (let s1 = log a (txt_Rebooting_device @ deviceSerial @ txt_dots) emojiArrows s0;
          ((success, _, errorMsg), s2) = runADBCommand os txt_reboot deviceSerial s1
      in if success
         then (True, log a (txt_Reboot_command_sent_to_device @ deviceSerial) emojiCheck s2)
         else (False, log a (txt_Failed_to_reboot_device @ deviceSerial @ '': '' @ errorMsg)
                        emojiCross s2))"

text \<open>The command \<open>shell echo 'test'\<close>, with its two quote bytes.\<close>

definition shellEchoTest :: string where
  "shellEchoTest = txt_shell_echo @ [CHR 0x27] @ txt_test @ [CHR 0x27]"

text \<open>
  Go's \<open>int\<close> on the 64-bit targets the Makefile builds: a product is reduced to the
  signed 64-bit range.
\<close>

definition goInt :: "int \<Rightarrow> int" where
  "goInt x = (x + 2 ^ 63) mod 2 ^ 64 - 2 ^ 63"

text \<open>
  One polling attempt of \<open>WaitForDeviceReady\<close>: the part of the loop body that decides
  whether the device is ready.
\<close>

definition WaitForDeviceReady_attempt ::
  "AndroidLockScreenDisabler \<Rightarrow> 'w opsys \<Rightarrow> string \<Rightarrow> 'w st \<Rightarrow> bool \<times> 'w st" where
  "WaitForDeviceReady_attempt a os deviceSerial s0 =
     (let ((success, _, _), s1) = runADBCommand os txt_get_state deviceSerial s0
      in if success
         then (let s2 = log a (txt_Device @ deviceSerial
                               @ txt_sp_detected_waiting_for_system_to_fully_boot)
                          emojiStopwatch s1;
                   s3 = sleep 10 s2;
                   ((success2, _, _), s4) = runADBCommand os shellEchoTest deviceSerial s3
               in (success2, s4))
         else (False, s1))"

text \<open>
  The loop; \<open>attempt\<close> starts at 0 and is incremented only below \<open>maxAttempts\<close>, so
  it is a natural number that never overflows.
\<close>

function WaitForDeviceReady_loop ::
  "AndroidLockScreenDisabler \<Rightarrow> 'w opsys \<Rightarrow> string \<Rightarrow> int \<Rightarrow> int \<Rightarrow> nat \<Rightarrow> 'w st \<Rightarrow> bool \<times> 'w st"
  where
  "WaitForDeviceReady_loop a os deviceSerial maxWaitMinutes maxAttempts attempt s =
     (if int attempt < maxAttempts
      then (let (ready, s1) = WaitForDeviceReady_attempt a os deviceSerial s
            in if ready
               then (True, log a (txt_Device @ deviceSerial @ txt_sp_is_ready) emojiCheck s1)
               else (let attempt' = attempt + 1;
                         s2 = (if attempt' mod 6 = 0
                               then log a (txt_Still_waiting_for_device @ deviceSerial @ txt_dots_lparen
                                           @ Itoa (int (attempt' div 12)) @ ''/''
                                           @ Itoa maxWaitMinutes @ txt_sp_minutes_rparen)
                                      emojiHourglassDone s1
                               else s1)
                     in WaitForDeviceReady_loop a os deviceSerial maxWaitMinutes maxAttempts
                          attempt' (sleep 5 s2)))
      else (False, log a (txt_Timeout_waiting_for_device @ deviceSerial @ txt_sp_to_be_ready_after
                          @ Itoa maxWaitMinutes @ txt_sp_minutes) emojiAlarmClock s))"
  by pat_completeness auto
termination
  by (relation "measure (\<lambda>(a, os, d, m, maxAttempts, attempt, s). nat maxAttempts - attempt)")
     auto

declare WaitForDeviceReady_loop.simps [simp del]

definition WaitForDeviceReady ::
  "AndroidLockScreenDisabler \<Rightarrow> 'w opsys \<Rightarrow> string \<Rightarrow> int \<Rightarrow> 'w st \<Rightarrow> bool \<times> 'w st" where
  "WaitForDeviceReady a os deviceSerial maxWaitMinutes s0 =
     (let s1 = log a (txt_Waiting_for_device @ deviceSerial @ txt_sp_to_be_ready_after_reboot)
                 emojiHourglass s0;
          maxAttempts = goInt (maxWaitMinutes * 12)
      in WaitForDeviceReady_loop a os deviceSerial maxWaitMinutes maxAttempts 0 s1)"

section \<open>Lock-state inspection (validation.go)\<close>

definition CheckDevicePermissions ::
  "AndroidLockScreenDisabler \<Rightarrow> 'w opsys \<Rightarrow> string \<Rightarrow> 'w st \<Rightarrow> bool \<times> 'w st" where
  "CheckDevicePermissions a os deviceSerial s0 =
     (let s1 = log a (txt_Checking_permissions_for_device @ deviceSerial @ txt_dots) emojiLockKey s0;
          ((success, _, _), s2) = runADBCommand os shellEchoTest deviceSerial s1
      in if \<not> success
         then (False, log a (txt_No_shell_access_to_device @ deviceSerial) emojiCross s2)
         else
           let ((success2, output, _), s3) =
                  runADBCommand os txt_shell_settings_list_secure deviceSerial s2
           in if \<not> success2 \<or> output = []
              then (False, log a (txt_Cannot_access_settings_on_device @ deviceSerial) emojiCross s3)
              else (True, log a (txt_Device @ deviceSerial @ txt_sp_has_necessary_permissions)
                            emojiCheck s3))"

text \<open>
  The loop over \<open>lockMethods\<close> in \<open>CheckExistingLockScreen\<close>; \<open>Some\<close> is the
  \<open>return\<close> inside the loop, \<open>None\<close> its normal end.
\<close>

fun lockMethodsLoop ::
  "'w opsys \<Rightarrow> string \<Rightarrow> bool \<Rightarrow> string list \<Rightarrow> 'w st \<Rightarrow> (bool \<times> string) option \<times> 'w st" where
  "lockMethodsLoop os deviceSerial lockScreenDisabledLockSettingsMethod [] s = (None, s)"
| "lockMethodsLoop os deviceSerial lockScreenDisabledLockSettingsMethod (method # rest) s =
     (let ((success, output, _), s1) = runADBCommand os method deviceSerial s
      in if success \<and> output \<noteq> [] \<and> output \<noteq> txt_null
         then (if Contains method txt_lock_pattern_enabled \<and> output = ''1''
               then (Some (True, txt_Device_has_lock_pattern_enabled), s1)
               else if Contains method txt_password_type \<and> output \<noteq> ''0''
               then (Some (True, txt_Device_has_password_type_configured_type @ output @ '')''), s1)
               else if Contains method txt_lockscreen_disabled \<and> output = ''0''
                       \<and> \<not> lockScreenDisabledLockSettingsMethod
               then (Some (True, txt_Lock_screen_is_explicitly_enabled_in_settings), s1)
               else lockMethodsLoop os deviceSerial lockScreenDisabledLockSettingsMethod rest s1)
         else lockMethodsLoop os deviceSerial lockScreenDisabledLockSettingsMethod rest s1)"

definition lockMethods :: "string list" where
  "lockMethods = [txt_shell_settings_get_secure_lock_pattern_enabled,
                  txt_shell_settings_get_secure_lockscreen_password_type,
                  txt_shell_settings_get_secure_lockscreen_disabled]"

definition CheckExistingLockScreen ::
  "AndroidLockScreenDisabler \<Rightarrow> 'w opsys \<Rightarrow> string \<Rightarrow> 'w st \<Rightarrow> (bool \<times> string) \<times> 'w st" where
  "CheckExistingLockScreen a os deviceSerial s0 =
     (let s1 = log a (txt_Checking_if_device @ deviceSerial
                      @ txt_sp_has_existing_lock_screen_configured) emojiMagnifier s0;
          ((success1, output1, _), s2) = runADBCommand os txt_shell_dumpsys_trust deviceSerial s1
      in if success1 \<and> output1 \<noteq> []
            \<and> (Contains (ToLower os output1) txt_isdevicesecure_true
                \<or> Contains (ToLower os output1) txt_iskeyguardsecure_true)
         then ((True, txt_Device_has_secure_lock_screen_detected_via_trust_manager), s2)
         else
           let ((success2, output2, _), s3) =
                  runADBCommand os txt_shell_locksettings_get_disabled deviceSerial s2;
               lockScreenDisabledLockSettingsMethod =
                  (if success2 then Contains (ToLower os output2) txt_true else False)
           in if success2 \<and> \<not> lockScreenDisabledLockSettingsMethod
              then ((True, txt_Device_has_lock_configured_detected_via_locksettings), s3)
              else
                let ((success3, output3, _), s4) =
                       runADBCommand os txt_shell_dumpsys_activity_services_KeyguardService
                         deviceSerial s3
                in if success3 \<and> output3 \<noteq> []
                      \<and> (Contains (ToLower os output3) txt_secure_true
                          \<or> Contains (ToLower os output3) txt_enabled_true)
                   then ((True, txt_Device_has_keyguard_enabled_detected_via_KeyguardService), s4)
                   else
                     (case lockMethodsLoop os deviceSerial lockScreenDisabledLockSettingsMethod
                             lockMethods s4 of
                        (Some r, s5) \<Rightarrow> (r, s5)
                      | (None, s5) \<Rightarrow>
                          let ((success5, output5, _), s6) =
                                 runADBCommand os txt_shell_dumpsys_device_policy deviceSerial s5
                          in if success5 \<and> output5 \<noteq> []
                                \<and> (Contains (ToLower os output5) txt_passwordquality
                                    \<or> Contains (ToLower os output5) txt_minimumpasswordlength)
                             then ((True, txt_Device_has_admin_enforced_password_policy), s6)
                             else ((False, txt_No_lock_screen_detected), s6)))"

text \<open>
  The three line scans of \<open>CheckLockScreenStatus\<close>. Each returns from the function at
  the first line that passes both tests, so each is an existence test over the lines.
\<close>

definition windowLineLocked :: "'w opsys \<Rightarrow> string \<Rightarrow> bool" where
  "windowLineLocked os line =
     (let lowerLine = ToLower os line
      in (Contains lowerLine txt_mdreaminglockscreen \<or> Contains lowerLine txt_mshowingleckscreen
          \<or> Contains lowerLine txt_keyguardcontroller)
         \<and> (Contains lowerLine txt_mshowingleckscreen_true
            \<or> Contains lowerLine txt_mdreaminglockscreen_true
            \<or> Contains lowerLine txt_keyguardshowing_true))"

definition powerLineLocked :: "'w opsys \<Rightarrow> string \<Rightarrow> bool" where
  "powerLineLocked os line =
     (let lowerLine = ToLower os line
      in (Contains lowerLine txt_mwakefulness \<or> Contains lowerLine txt_display_power)
         \<and> (Contains lowerLine txt_asleep \<or> Contains lowerLine txt_dozing))"

definition activityLineUnlocked :: "'w opsys \<Rightarrow> string \<Rightarrow> bool" where
  "activityLineUnlocked os line =
     (let lowerLine = ToLower os line
      in (Contains lowerLine txt_mresumedactivity \<or> Contains lowerLine txt_mfocusedactivity)
         \<and> (\<not> Contains lowerLine txt_keyguard \<and> \<not> Contains lowerLine txt_lockscreen
            \<and> \<not> Contains lowerLine txt_bouncer))"

text \<open>The result is \<open>(locked, err)\<close>; \<open>Some\<close> carries the text of the error.\<close>

definition CheckLockScreenStatus ::
  "AndroidLockScreenDisabler \<Rightarrow> 'w opsys \<Rightarrow> string \<Rightarrow> 'w st
   \<Rightarrow> (bool \<times> string option) \<times> 'w st" where
  "CheckLockScreenStatus a os deviceSerial s0 =
     (let s1 = log a (txt_Checking_lock_screen_status_on_device @ deviceSerial @ txt_dots)
                 emojiMagnifier s0;
          ((success1, output1, _), s2) = runADBCommand os txt_shell_dumpsys_window deviceSerial s1
      in if success1 \<and> output1 \<noteq> [] \<and> list_ex (windowLineLocked os) (Split output1 (CHR 0x0A))
         then ((True, None), s2)
         else
           let ((success2, output2, _), s3) =
                  runADBCommand os txt_shell_dumpsys_power deviceSerial s2
           in if success2 \<and> output2 \<noteq> [] \<and> list_ex (powerLineLocked os) (Split output2 (CHR 0x0A))
              then ((True, None), s3)
              else
                let ((success3, output3, _), s4) =
                       runADBCommand os txt_shell_dumpsys_activity_activities deviceSerial s3
                in if success3 \<and> output3 \<noteq> []
                      \<and> list_ex (activityLineUnlocked os) (Split output3 (CHR 0x0A))
                   then ((False, None), s4)
                   else
                     let ((success4, output4, _), s5) =
                            runADBCommand os txt_shell_settings_get_secure_lockscreen_disabled
                              deviceSerial s4
                     in if success4 \<and> output4 = ''1''
                        then ((False, None), s5)
                        else
                          let ((success5, output5, _), s6) =
                                 runADBCommand os txt_shell_locksettings_get_disabled deviceSerial s5
                          in if success5 \<and> Contains (ToLower os output5) txt_true
                             then ((False, None), s6)
                             else ((True, Some txt_unable_to_determine_lock_screen_status_definitively),
                                   s6))"

text \<open>The last statement of \<open>ValidateLockScreenRemoval\<close>, reached from two places.\<close>

definition ValidateLockScreenRemoval_verdict ::
  "AndroidLockScreenDisabler \<Rightarrow> string \<Rightarrow> bool \<Rightarrow> 'w st \<Rightarrow> bool \<times> 'w st" where
  "ValidateLockScreenRemoval_verdict a deviceSerial isLocked s =
     (if \<not> isLocked
      then (True, log a (emojiCheck @ txt_sp_Lock_screen_successfully_removed_on_device
                         @ deviceSerial @ ''!'') emojiParty s)
      else (False, log a (emojiCross @ txt_sp_Lock_screen_is_still_present_on_device @ deviceSerial)
                     emojiSad s))"

definition keyeventWakeup :: string where
  "keyeventWakeup = txt_shell_input_keyevent_KEYCODE_WAKEUP"

definition ValidateLockScreenRemoval ::
  "AndroidLockScreenDisabler \<Rightarrow> 'w opsys \<Rightarrow> string \<Rightarrow> 'w st \<Rightarrow> bool \<times> 'w st" where
  "ValidateLockScreenRemoval a os deviceSerial s0 =
     (let s1 = log a (txt_Validating_lock_screen_removal_on_device @ deviceSerial @ txt_dots)
                 emojiMagnifier s0;
          s2 = sleep 3 s1;
          ((isLocked, err), s3) = CheckLockScreenStatus a os deviceSerial s2
      in case err of
           None \<Rightarrow> ValidateLockScreenRemoval_verdict a deviceSerial isLocked s3
         | Some e \<Rightarrow>
             let s4 = log a (txt_Warning_Could_not_definitively_determine_lock_screen_status_on_device
                             @ deviceSerial @ '': '' @ e) emojiWarning s3;
                 (_, s5) = runADBCommand os keyeventWakeup deviceSerial s4;
                 s6 = sleep 2 s5;
                 ((isLocked2, err2), s7) = CheckLockScreenStatus a os deviceSerial s6
             in (case err2 of
                   Some e2 \<Rightarrow>
                     (False, log a (txt_Still_unable_to_determine_lock_screen_status_on_device
                                    @ deviceSerial) emojiWarning s7)
                 | None \<Rightarrow> ValidateLockScreenRemoval_verdict a deviceSerial isLocked2 s7))"

section \<open>Per-device orchestration and the batch (disabler.go)\<close>

text \<open>
  The cascade inside \<open>DisableLockscreenOnDeviceAsync\<close>: a successful method sets
  \<open>success\<close> and the loop breaks; a failed one is followed by a pause of one second.
\<close>

fun methodsLoop ::
  "(string \<Rightarrow> 'w st \<Rightarrow> bool \<times> 'w st) list \<Rightarrow> string \<Rightarrow> 'w st \<Rightarrow> bool \<times> 'w st" where
  "methodsLoop [] deviceSerial s = (False, s)"
| "methodsLoop (method # methods) deviceSerial s =
     (let (ok, s1) = method deviceSerial s
      in if ok then (True, s1) else methodsLoop methods deviceSerial (sleep 1 s1))"

text \<open>
  The goroutine body. \<open>stats\<close> is the shared object: the result carries it after the
  update this run makes. The trace is the goroutine's own.
\<close>

definition DisableLockscreenOnDeviceAsync ::
  "AndroidLockScreenDisabler \<Rightarrow> 'w opsys \<Rightarrow> string \<Rightarrow> ProcessingStats \<Rightarrow> 'w st
   \<Rightarrow> ProcessingStats \<times> 'w st" where
  "DisableLockscreenOnDeviceAsync a os deviceSerial stats s0 =
     (let deviceTag = ''['' @ deviceSerial @ '']'';
          s1 = log a (deviceTag @ txt_sp_Starting_lock_screen_disable_process) emojiRocket s0;
          (deviceInfo, s2) = GetDeviceInfo a os deviceSerial s1;
          s3 = log a (deviceTag @ txt_sp_Device @ Manufacturer deviceInfo @ '' '' @ Model deviceInfo
                      @ txt_sp_Android @ AndroidVersion deviceInfo @ txt_comma_API
                      @ APILevel deviceInfo @ '')'') emojiClipboard s2;
          (permitted, s4) = CheckDevicePermissions a os deviceSerial s3
      in if \<not> permitted
         then (AddFailedDevice deviceSerial stats,
               log a (deviceTag @ txt_sp_Insufficient_permissions
                      @ txt_Make_sure_USB_debugging_is_enabled_and_device_is_authorized)
                 emojiCross s4)
         else
           let ((hasLock, lockType), s5) = CheckExistingLockScreen a os deviceSerial s4
           in if \<not> hasLock
              then (IncrementSuccess stats,
                    log a (deviceTag @ txt_sp_Device_is_already_unlocked_or_has_no_lock_configured)
                      emojiCheck
                      (log a (deviceTag @ txt_sp_No_lock_screen_detected_on_device
                              @ txt_Skipping_lock_screen_disable_process) emojiInfo s5))
              else
                let s6 = log a (deviceTag @ txt_sp_Lock_screen_detected @ lockType) emojiLock s5;
                    s7 = log a (deviceTag @ txt_sp_Proceeding_with_lock_screen_disable_process)
                           emojiRocket s6;
                    (success, s8) = methodsLoop (methodList a os) deviceSerial s7
                in if \<not> success
                   then (AddFailedDevice deviceSerial stats,
                         log a (deviceTag @ txt_sp_All_methods_failed) emojiSad s8)
                   else
                     let s9 = sleep 2 s8;
                         s10 = log a (deviceTag @ txt_sp_Rebooting_device_to_apply_lock_screen_changes)
                                 emojiArrows s9;
                         (rebooted, s11) = RebootDevice a os deviceSerial s10
                     in if \<not> rebooted
                        then (IncrementSuccess stats,
                              log a (deviceTag @ txt_sp_Failed_to_reboot_device
                                     @ txt_but_lock_screen_settings_were_applied) emojiWarning s11)
                        else
                          let s12 = log a (deviceTag @ txt_sp_Waiting_for_device_to_be_ready_after_reboot
                                           @ txt_up_to_5_minutes) emojiHourglass s11;
                              (ready, s13) = WaitForDeviceReady a os deviceSerial 5 s12
                          in if \<not> ready
                             then (AddFailedDevice deviceSerial stats,
                                   log a (deviceTag @ txt_sp_Device_did_not_become_ready_within_5_minutes
                                          @ txt_after_reboot) emojiAlarmClock s13)
                             else
                               let (valid, s14) = ValidateLockScreenRemoval a os deviceSerial s13
                               in if valid
                                  then (IncrementSuccess stats,
                                        log a (deviceTag @ txt_sp_Successfully_disabled_and_validated
                                               @ txt_lock_screen_removal @ emojiParty)
                                          emojiConfetti s14)
                                  else (IncrementSuccess stats,
                                        log a (deviceTag @ txt_sp_Lock_screen_settings_were_applied
                                               @ txt_but_validation_failed_after_reboot)
                                          emojiWarning s14))"

text \<open>
  \<open>ProcessDevices\<close> starts one goroutine per device and waits for all of them. Each
  goroutine talks to the outside from a world of its own, \<open>env i\<close> for the \<open>i\<close>-th
  device, which covers whatever answers an interleaving can produce, and it touches the
  shared statistics only through the mutex-protected methods. \<open>order\<close> lists the
  goroutine indexes in the order in which they take the mutex; after \<open>wg.Wait\<close> every
  goroutine has run, so an execution is an \<open>order\<close> that is a permutation of the
  indexes. The result is the triple of \<open>GetStats\<close> and the state of the calling
  goroutine, which has logged its three lines.
\<close>

definition ProcessDevices ::
  "AndroidLockScreenDisabler \<Rightarrow> 'w opsys \<Rightarrow> (nat \<Rightarrow> 'w) \<Rightarrow> nat list \<Rightarrow> string list \<Rightarrow> 'w st
   \<Rightarrow> (int \<times> string list \<times> int) \<times> 'w st" where
  "ProcessDevices a os env order devices s0 =
     (if length devices = 0 then ((0, [], 0), s0)
      else
        let stats = NewProcessingStats (int (length devices));
            s1 = log a (txt_Processing @ Itoa (int (length devices)) @ txt_sp_device_s_concurrently)
                   emojiRocket s0;
            s2 = log a (Repeat ''-'' 50) [] s1;
            s3 = log a txt_Waiting_for_all_devices_to_complete_processing emojiHourglass s2;
            stats' = fold (\<lambda>i ps. fst (DisableLockscreenOnDeviceAsync a os (devices ! i) ps
                                          \<lparr>world = env i, trace = []\<rparr>)) order stats
        in (GetStats stats', s3))"

section \<open>Vocabulary of the statements\<close>

text \<open>
  The operations read nothing of the state but its world. \<open>resultIn f w\<close> is what an
  operation returns when it starts in the world \<open>w\<close>, \<open>worldAfter f w\<close> the world it
  leaves. \<open>adbAnswer\<close> and \<open>adbNext\<close> are the two for a single command.
\<close>

definition resultIn :: "('w st \<Rightarrow> 'r \<times> 'w st) \<Rightarrow> 'w \<Rightarrow> 'r" where
  "resultIn f w = fst (f \<lparr>world = w, trace = []\<rparr>)"

definition worldAfter :: "('w st \<Rightarrow> 'r \<times> 'w st) \<Rightarrow> 'w \<Rightarrow> 'w" where
  "worldAfter f w = world (snd (f \<lparr>world = w, trace = []\<rparr>))"

definition adbAnswer :: "'w opsys \<Rightarrow> string \<Rightarrow> string \<Rightarrow> 'w \<Rightarrow> bool \<times> string \<times> string" where
  "adbAnswer os command deviceSerial w = resultIn (runADBCommand os command deviceSerial) w"

definition adbNext :: "'w opsys \<Rightarrow> string \<Rightarrow> string \<Rightarrow> 'w \<Rightarrow> 'w" where
  "adbNext os command deviceSerial w = worldAfter (runADBCommand os command deviceSerial) w"

text \<open>The events a run has added to the trace of the state it started from.\<close>

definition since :: "'w st \<Rightarrow> 'w st \<Rightarrow> event list" where
  "since s s' = drop (length (trace s)) (trace s')"

text \<open>
  \<open>grows P s s'\<close>: the trace of \<open>s'\<close> extends that of \<open>s\<close>, by events that all
  satisfy \<open>P\<close>. \<open>admits P os d cs\<close>: \<open>P\<close> lets through every printed line, every
  pause, and the commands \<open>cs\<close> run on the device \<open>d\<close>.
\<close>

definition grows :: "(event \<Rightarrow> bool) \<Rightarrow> 'w st \<Rightarrow> 'w st \<Rightarrow> bool" where
  "grows P s s' = (take (length (trace s)) (trace s') = trace s \<and> list_all P (since s s'))"

definition admits :: "(event \<Rightarrow> bool) \<Rightarrow> 'w opsys \<Rightarrow> string \<Rightarrow> string list \<Rightarrow> bool" where
  "admits P os d cs =
     ((\<forall>line. P (Print line)) \<and> (\<forall>n. P (Sleep n)) \<and> list_all (\<lambda>c. P (Exec (adbArgv os c d))) cs)"

text \<open>\<open>worldOnly f\<close>: the result of \<open>f\<close> and the world it leaves depend on the world only.\<close>

definition worldOnly :: "('w st \<Rightarrow> 'r \<times> 'w st) \<Rightarrow> bool" where
  "worldOnly f =
     (\<forall>s. fst (f s) = resultIn f (world s) \<and> world (snd (f s)) = worldAfter f (world s))"

definition isExec :: "event \<Rightarrow> bool" where
  "isExec e = (case e of Exec argv \<Rightarrow> True | _ \<Rightarrow> False)"

definition isPrint :: "event \<Rightarrow> bool" where
  "isPrint e = (case e of Print line \<Rightarrow> True | _ \<Rightarrow> False)"

text \<open>The commands of the four remediation methods, in the order of the methods.\<close>

definition remediationCommands :: "string list" where
  "remediationCommands =
     [txt_shell_locksettings_clear, txt_shell_locksettings_set_disabled_true,
      txt_shell_settings_put_secure_lockscreen_disabled_1,
      txt_shell_settings_put_system_lockscreen_disabled_1,
      txt_shell_settings_put_global_device_provisioned_1,
      txt_shell_settings_put_secure_user_setup_complete_1]"

text \<open>The line \<open>log\<close> prints for a requested device that is not connected.\<close>

definition warningLine :: "string \<Rightarrow> string" where
  "warningLine targetDevice =
     emojiWarning @ '' '' @ (txt_Warning_Device @ targetDevice @ txt_sp_not_found_in_connected_devices)
     @ [CHR 0x0A]"

definition isWarning :: "event \<Rightarrow> bool" where
  "isWarning e = (case e of Print line \<Rightarrow> HasPrefix line (emojiWarning @ txt_sp_Warning_Device)
                  | _ \<Rightarrow> False)"

section \<open>Example environments\<close>

text \<open>
  A device farm that answers from a table: a command line found in the table succeeds
  with the output listed there, any other exits with status 1. The world is a counter
  of the processes run.
\<close>

definition okResult :: "string \<Rightarrow> cmdResult" where
  "okResult out = \<lparr>combinedOutput = out, runErr = None, deadlineExceeded = False, exitCode = 0\<rparr>"

definition failResult :: cmdResult where
  "failResult = \<lparr>combinedOutput = [], runErr = Some (ExitStatus ''1''), deadlineExceeded = False,
                 exitCode = 1\<rparr>"

definition timeoutResult :: cmdResult where
  "timeoutResult = \<lparr>combinedOutput = [], runErr = Some (Signaled ''killed'' False), deadlineExceeded = True,
                    exitCode = - 1\<rparr>"

definition tableOS :: "(string \<times> string) list \<Rightarrow> nat opsys" where
  "tableOS tbl =
     \<lparr>windows = False,
      spawn = (\<lambda>t argv w.
                 (case argv of
                    [sh, c, line] \<Rightarrow> (case map_of tbl line of Some out \<Rightarrow> okResult out
                                       | None \<Rightarrow> failResult)
                  | _ \<Rightarrow> failResult, Suc w)),
      unicodeLower = map lowerByte\<rparr>"

text \<open>A world in which every process is killed at the deadline.\<close>

definition timeoutOS :: "nat opsys" where
  "timeoutOS = \<lparr>windows = False, spawn = (\<lambda>t argv w. (timeoutResult, Suc w)),
                 unicodeLower = map lowerByte\<rparr>"

definition start :: "nat st" where
  "start = \<lparr>world = 0, trace = []\<rparr>"

text \<open>A device on which only the second command of method 4 succeeds.\<close>

definition c6os :: "nat opsys" where
  "c6os = tableOS [(fullCommand txt_shell_settings_put_secure_user_setup_complete_1 ''D1'', [])]"

text \<open>The devices \<open>GetConnectedDevices\<close> reads from the output of a listing.\<close>

definition onlineDevices :: "string \<Rightarrow> string list" where
  "onlineDevices output = parseDeviceLines (ScanLines output) True []"

text \<open>A device on which every command succeeds with empty output.\<close>

definition agreeableOS :: "nat opsys" where
  "agreeableOS = \<lparr>windows = False, spawn = (\<lambda>t argv w. (okResult [], Suc w)),
                   unicodeLower = map lowerByte\<rparr>"

text \<open>A bridge that lists \<open>D1\<close> and \<open>D2\<close> as ready and \<open>D4\<close> as offline.\<close>

definition listing :: string where
  "listing = ''List of devices attached'' @ [CHR 0x0A] @ ''D1'' @ [CHR 0x09] @ ''device''
             @ [CHR 0x0A] @ ''D4'' @ [CHR 0x09] @ ''offline''
             @ [CHR 0x0A] @ ''D2'' @ [CHR 0x09] @ ''device'' @ [CHR 0x0A]"

definition listOS :: "nat opsys" where
  "listOS = tableOS [(''adb devices'', listing)]"


definition twiceCaller :: AndroidLockScreenDisabler where
  "twiceCaller = NewAndroidLockScreenDisabler [''D1'', ''D1'']"

text \<open>
  The polls of a device in a trace: how many times \<open>get-state\<close> was run on it. The
  example is a device that answers \<open>get-state\<close> and no other command.
\<close>

definition polls :: "'w opsys \<Rightarrow> string \<Rightarrow> 'w st \<Rightarrow> nat" where
  "polls os deviceSerial s = count_list (trace s) (Exec (adbArgv os txt_get_state deviceSerial))"

definition seenOS :: "nat opsys" where
  "seenOS = tableOS [(fullCommand txt_get_state ''D1'', ''device'')]"

text \<open>
  The commands of the steps before the remediation (device information, permissions
  check, lock inspection), and the events \<open>inspects\<close> lets through: printed lines and
  these commands run on the device.
\<close>

definition inspectionCommands :: "string list" where
  "inspectionCommands =
     [txt_shell_getprop_ro_product_model, txt_shell_getprop_ro_product_manufacturer,
      txt_shell_getprop_ro_build_version_release, txt_shell_getprop_ro_build_version_sdk,
      shellEchoTest, txt_shell_settings_list_secure,
      txt_shell_dumpsys_trust, txt_shell_locksettings_get_disabled,
      txt_shell_dumpsys_activity_services_KeyguardService,
      txt_shell_settings_get_secure_lock_pattern_enabled,
      txt_shell_settings_get_secure_lockscreen_password_type,
      txt_shell_settings_get_secure_lockscreen_disabled,
      txt_shell_dumpsys_device_policy]"

definition inspects :: "'w opsys \<Rightarrow> string \<Rightarrow> event \<Rightarrow> bool" where
  "inspects os deviceSerial e =
     (isPrint e \<or> e \<in> set (map (\<lambda>c. Exec (adbArgv os c deviceSerial)) inspectionCommands))"

text \<open>
  A device that answers the two commands of the permissions check and fails every
  other command.
\<close>

definition noLockOS :: "nat opsys" where
  "noLockOS = tableOS [(fullCommand shellEchoTest ''D1'', ''test''),
                       (fullCommand txt_shell_settings_list_secure ''D1'', ''adb_enabled=1'')]"

text \<open>
  The tests of \<open>CheckExistingLockScreen\<close> on the answer of a command. A dump reports a
  lock when it succeeded with an output that is not empty and that, in lower case,
  contains one of the words; the pattern setting when it reads \<open>1\<close>; the password
  setting when it reads anything but nothing, \<open>null\<close> and \<open>0\<close>. \<open>lockInspection\<close> lists
  the commands of the inspection in the order in which it runs them.
\<close>

definition reports :: "'w opsys \<Rightarrow> string list \<Rightarrow> bool \<times> string \<times> string \<Rightarrow> bool" where
  "reports os words r =
     (fst r \<and> fst (snd r) \<noteq> [] \<and> list_ex (Contains (ToLower os (fst (snd r)))) words)"

definition patternOn :: "bool \<times> string \<times> string \<Rightarrow> bool" where
  "patternOn r = (fst r \<and> fst (snd r) = ''1'')"

definition passwordOn :: "bool \<times> string \<times> string \<Rightarrow> bool" where
  "passwordOn r = (fst r \<and> fst (snd r) \<noteq> [] \<and> fst (snd r) \<noteq> txt_null \<and> fst (snd r) \<noteq> ''0'')"

definition lockInspection :: "string list" where
  "lockInspection =
     [txt_shell_dumpsys_trust, txt_shell_locksettings_get_disabled,
      txt_shell_dumpsys_activity_services_KeyguardService,
      txt_shell_settings_get_secure_lock_pattern_enabled,
      txt_shell_settings_get_secure_lockscreen_password_type,
      txt_shell_settings_get_secure_lockscreen_disabled,
      txt_shell_dumpsys_device_policy]"

text \<open>
  Two devices that answer \<open>true\<close> to \<open>locksettings get-disabled\<close>: on the first the
  keyguard service says \<open>secure=true\<close>, on the second every other command fails.
\<close>

definition keyguardOS :: "nat opsys" where
  "keyguardOS = tableOS [(fullCommand txt_shell_locksettings_get_disabled ''D1'', ''true''),
                         (fullCommand txt_shell_dumpsys_activity_services_KeyguardService ''D1'',
                          ''secure=true'')]"

definition disabledOS :: "nat opsys" where
  "disabledOS = tableOS [(fullCommand txt_shell_locksettings_get_disabled ''D1'', ''true'')]"

section \<open>Basic facts\<close>


lemma world_emit [simp]: "world (emit e s) = world s"
  by (simp add: emit_def)

lemma trace_emit [simp]: "trace (emit e s) = trace s @ [e]"
  by (simp add: emit_def)

lemma world_sleep [simp]: "world (sleep n s) = world s"
  by (simp add: sleep_def)

lemma trace_sleep [simp]: "trace (sleep n s) = trace s @ [Sleep n]"
  by (simp add: sleep_def)

lemma world_log [simp]: "world (log a m e s) = world s"
  by (simp add: log_def)

lemma trace_log:
  "trace (log a m e s) =
     trace s @ (if enableLogging a
                then [Print ((if e = [] then emojiInfo else e) @ '' '' @ m @ [CHR 0x0A])] else [])"
  by (simp add: log_def)

lemma runADBCommand_eq:
  "runADBCommand os c d s =
     (adbAnswer os c d (world s), emit (Exec (adbArgv os c d)) (s\<lparr>world := adbNext os c d (world s)\<rparr>))"
  by (simp add: runADBCommand_def adbAnswer_def adbNext_def resultIn_def worldAfter_def Let_def
           emit_def split: prod.splits option.splits)

lemma grows_refl [simp]: "grows P s s"
  by (simp add: grows_def since_def)

lemma grows_append:
  "grows P s s' \<longleftrightarrow> (\<exists>evs. trace s' = trace s @ evs \<and> list_all P evs)"
  unfolding grows_def since_def
  by (metis append_eq_conv_conj append_take_drop_id)

lemma grows_trans: "grows P s s1 \<Longrightarrow> grows P s1 s2 \<Longrightarrow> grows P s s2"
  by (auto simp: grows_append)

lemma grows_emit: "P e \<Longrightarrow> grows P s s' \<Longrightarrow> grows P s (emit e s')"
  by (auto simp: grows_append)

lemma grows_sleep: "P (Sleep n) \<Longrightarrow> grows P s s' \<Longrightarrow> grows P s (sleep n s')"
  by (simp add: sleep_def grows_emit)

lemma grows_log: "(\<And>l. P (Print l)) \<Longrightarrow> grows P s s' \<Longrightarrow> grows P s (log a m e s')"
  by (simp add: log_def grows_emit)

lemma grows_world_update [simp]: "grows P s (s'\<lparr>world := w\<rparr>) = grows P s s'"
  by (simp add: grows_def since_def)

lemma grows_run:
  "P (Exec (adbArgv os c d)) \<Longrightarrow> grows P s s' \<Longrightarrow> grows P s (snd (runADBCommand os c d s'))"
  by (simp add: runADBCommand_eq grows_emit)

lemma grows_since: "grows P s s' \<Longrightarrow> list_all P (since s s')"
  by (simp add: grows_def)

lemma grows_mono: "grows P s s' \<Longrightarrow> (\<And>e. P e \<Longrightarrow> Q e) \<Longrightarrow> grows Q s s'"
  by (auto simp: grows_append list_all_iff)

lemma admits_Print: "admits P os d cs \<Longrightarrow> P (Print l)"
  by (simp add: admits_def)

lemma admits_Sleep: "admits P os d cs \<Longrightarrow> P (Sleep n)"
  by (simp add: admits_def)

lemma admits_Exec: "admits P os d cs \<Longrightarrow> c \<in> set cs \<Longrightarrow> P (Exec (adbArgv os c d))"
  by (simp add: admits_def list_all_iff)

lemma admits_subset: "admits P os d cs \<Longrightarrow> set cs' \<subseteq> set cs \<Longrightarrow> admits P os d cs'"
  by (auto simp: admits_def list_all_iff)


lemma worldOnlyI:
  assumes "\<And>s s'. world s = world s' \<Longrightarrow> fst (f s) = fst (f s') \<and> world (snd (f s)) = world (snd (f s'))"
  shows "worldOnly f"
  unfolding worldOnly_def resultIn_def worldAfter_def
  by (intro allI assms) simp

lemma worldOnly_result: "worldOnly f \<Longrightarrow> fst (f s) = resultIn f (world s)"
  by (simp add: worldOnly_def)

lemma worldOnly_world: "worldOnly f \<Longrightarrow> world (snd (f s)) = worldAfter f (world s)"
  by (simp add: worldOnly_def)

lemma worldOnly_run: "worldOnly (runADBCommand os c d)"
  by (rule worldOnlyI) (simp add: runADBCommand_eq)

lemma worldOnly_method1: "worldOnly (disableLockscreenMethod1 a os d)"
  by (rule worldOnlyI)
     (simp add: disableLockscreenMethod1_def runADBCommand_eq Let_def split_beta)

lemma worldOnly_method2: "worldOnly (disableLockscreenMethod2 a os d)"
  by (rule worldOnlyI)
     (simp add: disableLockscreenMethod2_def runADBCommand_eq Let_def split_beta)

lemma worldOnly_method3: "worldOnly (disableLockscreenMethod3 a os d)"
  by (rule worldOnlyI)
     (simp add: disableLockscreenMethod3_def runADBCommand_eq Let_def split_beta)

lemma method4Commands_worldOnly:
  "world s = world s' \<Longrightarrow>
   fst (method4Commands os d cs n s) = fst (method4Commands os d cs n s') \<and>
   world (snd (method4Commands os d cs n s)) = world (snd (method4Commands os d cs n s'))"
proof (induction cs arbitrary: n s s')
  case Nil
  then show ?case by simp
next
  case (Cons c cs)
  let ?r = "runADBCommand os c d"
  have a: "fst (?r s) = fst (?r s')" and w: "world (snd (?r s)) = world (snd (?r s'))"
    using Cons.prems by (simp_all add: runADBCommand_eq)
  from Cons.IH [OF w] show ?case by (simp add: Let_def split_beta a)
qed

lemma worldOnly_method4Commands: "worldOnly (method4Commands os d cs n)"
  by (rule worldOnlyI) (rule method4Commands_worldOnly)

lemma worldOnly_method4: "worldOnly (disableLockscreenMethod4 a os d)"
  by (rule worldOnlyI)
     (simp add: disableLockscreenMethod4_def Let_def split_beta runADBCommand_eq)

lemma worldOnly_GetDeviceInfo: "worldOnly (GetDeviceInfo a os d)"
  by (rule worldOnlyI) (simp add: GetDeviceInfo_def runADBCommand_eq Let_def split_beta)

lemma worldOnly_RebootDevice: "worldOnly (RebootDevice a os d)"
  by (rule worldOnlyI) (simp add: RebootDevice_def runADBCommand_eq Let_def split_beta)

lemma worldOnly_attempt: "worldOnly (WaitForDeviceReady_attempt a os d)"
  by (rule worldOnlyI) (simp add: WaitForDeviceReady_attempt_def runADBCommand_eq Let_def split_beta)

lemma worldOnly_CheckDevicePermissions: "worldOnly (CheckDevicePermissions a os d)"
  by (rule worldOnlyI) (simp add: CheckDevicePermissions_def runADBCommand_eq Let_def split_beta)

lemma worldOnly_CheckLockScreenStatus: "worldOnly (CheckLockScreenStatus a os d)"
  by (rule worldOnlyI) (simp add: CheckLockScreenStatus_def runADBCommand_eq Let_def split_beta)

section \<open>The command executor\<close>

text \<open>No error of the library reads \<open>Command timed out\<close>.\<close>

lemma errorText_not_timeout: "errorText e \<noteq> ''Command timed out''"
proof (cases e)
  case (PathError operation path msg)
  then have "CHR '':'' \<in> set (errorText e)" by simp
  moreover have "CHR '':'' \<notin> set ''Command timed out''" by simp
  ultimately show ?thesis by metis
next
  case (SyscallError call msg)
  then have "CHR '':'' \<in> set (errorText e)" by simp
  moreover have "CHR '':'' \<notin> set ''Command timed out''" by simp
  ultimately show ?thesis by metis
qed simp_all

text \<open>
  Claim C9. \<open>runADBCommand\<close> runs every command under the fixed timeout of 30 seconds.
  When the run ends with an error and the deadline has passed, the result is failure
  with empty output and the error text \<open>Command timed out\<close>. No other outcome carries
  that text: an error of another kind carries the text of the library's error, a run
  without error the empty text.
\<close>

theorem runADBCommand_timeout:
  assumes sp: "spawn os commandTimeout (adbArgv os command deviceSerial) (world s) = (r, w')"
  shows "commandTimeout = 30
    \<and> (runErr r \<noteq> None \<and> deadlineExceeded r \<longrightarrow>
           fst (runADBCommand os command deviceSerial s) = (False, [], ''Command timed out''))
    \<and> (snd (snd (fst (runADBCommand os command deviceSerial s))) = ''Command timed out''
           \<longleftrightarrow> runErr r \<noteq> None \<and> deadlineExceeded r)"
proof (intro conjI)
  show "commandTimeout = 30" by (simp add: commandTimeout_def)
  show "runErr r \<noteq> None \<and> deadlineExceeded r \<longrightarrow>
           fst (runADBCommand os command deviceSerial s) = (False, [], ''Command timed out'')"
    using sp by (auto simp: runADBCommand_def Let_def)
  show "snd (snd (fst (runADBCommand os command deviceSerial s))) = ''Command timed out''
           \<longleftrightarrow> runErr r \<noteq> None \<and> deadlineExceeded r"
  proof (cases "runErr r")
    case None
    then show ?thesis using sp by (simp add: runADBCommand_def Let_def)
  next
    case (Some err)
    then show ?thesis
      using sp errorText_not_timeout [of err] by (simp add: runADBCommand_def Let_def)
  qed
qed

theorem runADBCommand_timeout_witness:
  "spawn timeoutOS commandTimeout (adbArgv timeoutOS ''reboot'' ''D1'') (world start)
     = (timeoutResult, Suc 0)
   \<and> runErr timeoutResult \<noteq> None \<and> deadlineExceeded timeoutResult
   \<and> fst (runADBCommand timeoutOS ''reboot'' ''D1'' start) = (False, [], ''Command timed out'')
   \<and> spawn (tableOS []) commandTimeout (adbArgv (tableOS []) ''reboot'' ''D1'') (world start)
     = (failResult, Suc 0)
   \<and> runErr failResult = Some (ExitStatus ''1'') \<and> \<not> deadlineExceeded failResult
   \<and> snd (snd (fst (runADBCommand (tableOS []) ''reboot'' ''D1'' start))) \<noteq> ''Command timed out''"
proof -
  have sp: "spawn timeoutOS commandTimeout (adbArgv timeoutOS ''reboot'' ''D1'') (world start)
     = (timeoutResult, Suc 0)"
    by (simp add: timeoutOS_def start_def)
  have t: "runErr timeoutResult \<noteq> None \<and> deadlineExceeded timeoutResult"
    by (simp add: timeoutResult_def)
  have sp2: "spawn (tableOS []) commandTimeout (adbArgv (tableOS []) ''reboot'' ''D1'') (world start)
     = (failResult, Suc 0)"
    by (simp add: tableOS_def start_def adbArgv_def)
  have t2: "runErr failResult = Some (ExitStatus ''1'') \<and> \<not> deadlineExceeded failResult"
    by (simp add: failResult_def)
  from runADBCommand_timeout [OF sp] runADBCommand_timeout [OF sp2] t t2 sp sp2
  show ?thesis by blast
qed

section \<open>Remediation method 4\<close>

text \<open>
  Claim C6. Method 4 runs both of its commands, the second in the world the first
  leaves, and reports success exactly when at least one of the two succeeds: so also
  when the first fails and the second succeeds, and failure only when both fail.
\<close>

theorem disableLockscreenMethod4_partial_success:
  "fst (disableLockscreenMethod4 a os d s) =
     (fst (adbAnswer os txt_shell_settings_put_global_device_provisioned_1 d (world s))
      \<or> fst (adbAnswer os txt_shell_settings_put_secure_user_setup_complete_1 d
               (adbNext os txt_shell_settings_put_global_device_provisioned_1 d (world s))))
   \<and> filter isExec (since s (snd (disableLockscreenMethod4 a os d s))) =
       [Exec (adbArgv os txt_shell_settings_put_global_device_provisioned_1 d),
        Exec (adbArgv os txt_shell_settings_put_secure_user_setup_complete_1 d)]"
  by (simp add: disableLockscreenMethod4_def Let_def split_beta runADBCommand_eq trace_log
        since_def isExec_def)

theorem disableLockscreenMethod4_partial_success_witness:
  "\<not> fst (adbAnswer c6os txt_shell_settings_put_global_device_provisioned_1 ''D1'' (world start))
   \<and> fst (adbAnswer c6os txt_shell_settings_put_secure_user_setup_complete_1 ''D1''
            (adbNext c6os txt_shell_settings_put_global_device_provisioned_1 ''D1'' (world start)))
   \<and> fst (disableLockscreenMethod4 (NewAndroidLockScreenDisabler []) c6os ''D1'' start)"
proof -
  have 1: "\<not> fst (adbAnswer c6os txt_shell_settings_put_global_device_provisioned_1 ''D1'' (world start))"
    by code_simp
  have 2: "fst (adbAnswer c6os txt_shell_settings_put_secure_user_setup_complete_1 ''D1''
            (adbNext c6os txt_shell_settings_put_global_device_provisioned_1 ''D1'' (world start)))"
    by code_simp
  from disableLockscreenMethod4_partial_success
         [of "NewAndroidLockScreenDisabler []" c6os "''D1''" start] 1 2
  show ?thesis by simp
qed

section \<open>Statistics of a batch\<close>

text \<open>
  On every path the goroutine body makes exactly one update of the statistics: either
  \<open>IncrementSuccess\<close> or \<open>AddFailedDevice\<close> of its own device.
\<close>

lemma orchestration_one_update:
  "fst (DisableLockscreenOnDeviceAsync a os d stats s) = IncrementSuccess stats
   \<or> fst (DisableLockscreenOnDeviceAsync a os d stats s) = AddFailedDevice d stats"
  by (simp add: DisableLockscreenOnDeviceAsync_def Let_def split_beta)

lemma fold_orchestrations:
  assumes "\<forall>i \<in> set order. i < length devices"
  shows "successCount (fold (\<lambda>i ps. fst (DisableLockscreenOnDeviceAsync a os (devices ! i) ps
                                          \<lparr>world = env i, trace = []\<rparr>)) order ps)
           + int (length (failedDevices (fold (\<lambda>i ps. fst (DisableLockscreenOnDeviceAsync a os (devices ! i) ps
                                          \<lparr>world = env i, trace = []\<rparr>)) order ps)))
         = successCount ps + int (length (failedDevices ps)) + int (length order)
       \<and> totalDevices (fold (\<lambda>i ps. fst (DisableLockscreenOnDeviceAsync a os (devices ! i) ps
                                          \<lparr>world = env i, trace = []\<rparr>)) order ps) = totalDevices ps
       \<and> set (failedDevices (fold (\<lambda>i ps. fst (DisableLockscreenOnDeviceAsync a os (devices ! i) ps
                                          \<lparr>world = env i, trace = []\<rparr>)) order ps))
           \<subseteq> set (failedDevices ps) \<union> set devices"
  using assms
proof (induction order arbitrary: ps)
  case Nil
  then show ?case by simp
next
  case (Cons i order)
  let ?ps1 = "fst (DisableLockscreenOnDeviceAsync a os (devices ! i) ps \<lparr>world = env i, trace = []\<rparr>)"
  have i: "i < length devices" using Cons.prems by simp
  have rest: "\<forall>i \<in> set order. i < length devices" using Cons.prems by simp
  have step: "?ps1 = IncrementSuccess ps \<or> ?ps1 = AddFailedDevice (devices ! i) ps"
    by (rule orchestration_one_update)
  have s1: "successCount ?ps1 + int (length (failedDevices ?ps1))
            = successCount ps + int (length (failedDevices ps)) + 1"
    and t1: "totalDevices ?ps1 = totalDevices ps"
    and f1: "set (failedDevices ?ps1) \<subseteq> set (failedDevices ps) \<union> set devices"
    using step i by (auto simp: IncrementSuccess_def AddFailedDevice_def)
  from Cons.IH [OF rest, of ?ps1] s1 t1 f1 show ?case by auto
qed

text \<open>
  Claim C1. In every execution of \<open>ProcessDevices\<close> (every order in which the
  goroutines take the mutex, whatever the devices answer) the returned total is the
  number of targets, the success count plus the number of failed devices is the total,
  and the failed devices are targets. Every run of the goroutine body performs exactly
  one of the two updates.
\<close>

theorem ProcessDevices_counts:
  assumes "mset order = mset [0..<length devices]"
  shows "(case fst (ProcessDevices a os env order devices s0) of
            (successCnt, failed, totalCnt) \<Rightarrow>
              totalCnt = int (length devices) \<and> successCnt + int (length failed) = totalCnt
              \<and> set failed \<subseteq> set devices)
         \<and> (fst (DisableLockscreenOnDeviceAsync a os d stats s) = IncrementSuccess stats
            \<or> fst (DisableLockscreenOnDeviceAsync a os d stats s) = AddFailedDevice d stats)"
proof -
  have "set order = set [0..<length devices]"
    using assms by (rule mset_eq_setD)
  then have r: "\<forall>i \<in> set order. i < length devices" by simp
  have l: "length order = length devices"
    using assms by (metis length_upt diff_zero size_mset)
  show ?thesis
  proof (cases "devices = []")
    case True
    then show ?thesis
      using orchestration_one_update [of a os d stats s] by (simp add: ProcessDevices_def)
  next
    case False
    then show ?thesis
      using fold_orchestrations [OF r, of a os env "NewProcessingStats (int (length devices))"] l
        orchestration_one_update [of a os d stats s]
      by (simp add: ProcessDevices_def Let_def GetStats_def NewProcessingStats_def)
  qed
qed

theorem ProcessDevices_counts_witness:
  "mset [1, 0] = mset [0..<length [''D1'', ''D2'']]
   \<and> fst (ProcessDevices (NewAndroidLockScreenDisabler []) (tableOS []) (\<lambda>i. 0) [1, 0]
            [''D1'', ''D2''] start) = (0, [''D2'', ''D1''], 2)"
proof -
  have h: "mset [1, 0] = mset [0..<length [''D1'', ''D2'']]"
    by (simp add: upt_rec)
  have e: "fst (ProcessDevices (NewAndroidLockScreenDisabler []) (tableOS []) (\<lambda>i. 0) [1, 0]
            [''D1'', ''D2''] start) = (0, [''D2'', ''D1''], 2)"
    by code_simp
  from ProcessDevices_counts [OF h] h e show ?thesis by simp
qed

section \<open>The remediation cascade\<close>

text \<open>The commands each piece runs: what it adds to the \<open>Exec\<close> events of the trace.\<close>

lemma execs_sleep [simp]: "filter isExec (trace (sleep n s)) = filter isExec (trace s)"
  by (simp add: isExec_def)

lemma execs_log [simp]: "filter isExec (trace (log a m e s)) = filter isExec (trace s)"
  by (simp add: trace_log isExec_def)

lemma execs_run [simp]:
  "filter isExec (trace (snd (runADBCommand os c d s))) =
     filter isExec (trace s) @ [Exec (adbArgv os c d)]"
  by (simp add: runADBCommand_eq isExec_def)

lemma execs_if [simp]:
  "filter isExec (trace (if c then s else s')) =
     (if c then filter isExec (trace s) else filter isExec (trace s'))"
  by simp

lemma execs_method1:
  "filter isExec (trace (snd (disableLockscreenMethod1 a os d s))) =
     filter isExec (trace s) @
     [Exec (adbArgv os txt_shell_locksettings_clear d),
      Exec (adbArgv os txt_shell_locksettings_set_disabled_true d)]"
  by (simp add: disableLockscreenMethod1_def Let_def split_beta if_distrib [of snd])

lemma execs_method2:
  "filter isExec (trace (snd (disableLockscreenMethod2 a os d s))) =
     filter isExec (trace s) @
     [Exec (adbArgv os txt_shell_settings_put_secure_lockscreen_disabled_1 d)]"
  by (simp add: disableLockscreenMethod2_def Let_def split_beta if_distrib [of snd])

lemma execs_method3:
  "filter isExec (trace (snd (disableLockscreenMethod3 a os d s))) =
     filter isExec (trace s) @
     [Exec (adbArgv os txt_shell_settings_put_system_lockscreen_disabled_1 d)]"
  by (simp add: disableLockscreenMethod3_def Let_def split_beta if_distrib [of snd])

lemma execs_method4:
  "filter isExec (trace (snd (disableLockscreenMethod4 a os d s))) =
     filter isExec (trace s) @
     [Exec (adbArgv os txt_shell_settings_put_global_device_provisioned_1 d),
      Exec (adbArgv os txt_shell_settings_put_secure_user_setup_complete_1 d)]"
  by (simp add: disableLockscreenMethod4_def Let_def split_beta if_distrib [of snd])

lemma method1_result:
  "fst (disableLockscreenMethod1 a os d s) =
     fst (adbAnswer os txt_shell_locksettings_set_disabled_true d
            (adbNext os txt_shell_locksettings_clear d (world s)))"
  by (simp add: disableLockscreenMethod1_def Let_def split_beta runADBCommand_eq)

lemma DisableLockScreen_execs:
  "filter isExec (trace (snd (DisableLockScreen a os d s))) =
     filter isExec (trace s) @ map (\<lambda>c. Exec (adbArgv os c d)) remediationCommands"
  by (simp add: DisableLockScreen_def methodList_def remediationCommands_def split_beta
        execs_method1 execs_method2 execs_method3 execs_method4 isExec_def)

lemma DisableLockScreen_never_true: "\<not> fst (DisableLockScreen a os d s)"
  by (simp add: DisableLockScreen_def)

text \<open>The cascade inside the orchestrator does stop at the first success.\<close>

lemma methodsLoop_stops_at_method1:
  assumes "fst (disableLockscreenMethod1 a os d s)"
  shows "fst (methodsLoop (methodList a os) d s)
    \<and> filter isExec (trace (snd (methodsLoop (methodList a os) d s))) =
         filter isExec (trace s) @ map (\<lambda>c. Exec (adbArgv os c d)) (take 2 remediationCommands)"
  using assms
  by (simp add: methodList_def split_beta remediationCommands_def execs_method1)

lemma agreeable_answer: "fst (adbAnswer agreeableOS c d w)"
  by (simp add: adbAnswer_def resultIn_def runADBCommand_def agreeableOS_def okResult_def Let_def)

text \<open>
  Claim C3. The claim holds of the cascade written inside
  \<open>DisableLockscreenOnDeviceAsync\<close> and fails for \<open>DisableLockScreen\<close>. On a device
  where every command succeeds, method 1 returns true; \<open>DisableLockScreen\<close> all the
  same returns false and has run the commands of all four methods, while the cascade of
  the orchestrator returns true after the two commands of method 1.
\<close>

theorem DisableLockScreen_false_after_success:
  "fst (disableLockscreenMethod1 (NewAndroidLockScreenDisabler []) agreeableOS ''D1'' start)
   \<and> \<not> fst (DisableLockScreen (NewAndroidLockScreenDisabler []) agreeableOS ''D1'' start)
   \<and> filter isExec (trace (snd (DisableLockScreen (NewAndroidLockScreenDisabler [])
                                        agreeableOS ''D1'' start)))
       = map (\<lambda>c. Exec (adbArgv agreeableOS c ''D1'')) remediationCommands
   \<and> fst (methodsLoop (methodList (NewAndroidLockScreenDisabler []) agreeableOS) ''D1'' start)
   \<and> filter isExec (trace (snd (methodsLoop (methodList (NewAndroidLockScreenDisabler [])
                                        agreeableOS) ''D1'' start)))
       = map (\<lambda>c. Exec (adbArgv agreeableOS c ''D1'')) (take 2 remediationCommands)"
proof -
  have m1: "fst (disableLockscreenMethod1 (NewAndroidLockScreenDisabler []) agreeableOS ''D1'' start)"
    by (simp add: method1_result agreeable_answer)
  have t: "trace start = []" by (simp add: start_def)
  from m1 DisableLockScreen_never_true
    DisableLockScreen_execs [of "NewAndroidLockScreenDisabler []" agreeableOS "''D1''" start]
    methodsLoop_stops_at_method1 [OF m1] t
  show ?thesis by simp
qed

section \<open>The device directory\<close>

lemma Split_not_Nil [simp]: "Split l sep \<noteq> []"
  by (induction l) (auto split: list.splits)

lemma hd_Split: "hd (Split l sep) = takeWhile (\<lambda>c. c \<noteq> sep) l"
  by (induction l) (auto split: list.splits)

lemma parseDeviceLines_rest:
  "parseDeviceLines ls False acc =
     acc @ [takeWhile (\<lambda>c. c \<noteq> CHR 0x09) l. l \<leftarrow> map TrimSpace ls, l \<noteq> [] \<and> Contains l tabDevice]"
proof (induction ls arbitrary: acc)
  case Nil
  then show ?case by simp
next
  case (Cons x ls)
  show ?case
    using hd_Split [of "TrimSpace x" "CHR 0x09"] Split_not_Nil [of "TrimSpace x" "CHR 0x09"]
    by (cases "Split (TrimSpace x) (CHR 0x09)") (simp_all add: Cons.IH Let_def)
qed

lemma onlineDevices_eq:
  "onlineDevices output =
     [takeWhile (\<lambda>c. c \<noteq> CHR 0x09) l.
        l \<leftarrow> map TrimSpace (tl (ScanLines output)), l \<noteq> [] \<and> Contains l tabDevice]"
  by (cases "ScanLines output") (simp_all add: onlineDevices_def parseDeviceLines_rest Let_def)

lemma mapIndex_fold:
  "mapIndex (fold (\<lambda>device m. m(device \<mapsto> True)) ds m) t = (t \<in> set ds \<or> mapIndex m t)"
  by (induction ds arbitrary: m) (auto simp: mapIndex_def)

lemma mapIndex_makeDeviceMap [simp]: "mapIndex (makeDeviceMap ds) t = (t \<in> set ds)"
  by (simp add: makeDeviceMap_def mapIndex_fold) (simp add: mapIndex_def)

lemma filterTargets_result:
  "fst (filterTargets a m ts acc s) = acc @ filter (mapIndex m) ts"
  by (induction ts arbitrary: acc s) simp_all

lemma isWarning_warningLine [simp]: "isWarning (Print (warningLine t))"
  by (simp add: isWarning_def warningLine_def emojiWarning_def txt_sp_Warning_Device_def
        txt_Warning_Device_def)

lemma isWarning_Exec [simp]: "\<not> isWarning (Exec argv)"
  by (simp add: isWarning_def)

lemma warnings_log_warning:
  "filter isWarning (trace (log a (txt_Warning_Device @ t @ txt_sp_not_found_in_connected_devices)
                              emojiWarning s)) =
     filter isWarning (trace s) @ (if enableLogging a then [Print (warningLine t)] else [])"
proof -
  have "emojiWarning \<noteq> []" by (simp add: emojiWarning_def)
  then have "Print (emojiWarning @ '' '' @ (txt_Warning_Device @ t @ txt_sp_not_found_in_connected_devices)
                @ [CHR 0x0A]) = Print (warningLine t)"
    by (simp add: warningLine_def)
  then show ?thesis
    using \<open>emojiWarning \<noteq> []\<close> isWarning_warningLine [of t]
    by (simp add: trace_log del: isWarning_warningLine)
qed

lemma warnings_log_other:
  assumes "e = emojiPhone \<or> e = emojiTarget \<or> e = emojiInfo \<or> e = emojiCross"
  shows "filter isWarning (trace (log a m e s)) = filter isWarning (trace s)"
  using assms
  by (auto simp: trace_log isWarning_def emojiPhone_def emojiTarget_def emojiInfo_def emojiCross_def
        emojiWarning_def)

lemma filterTargets_warnings:
  "filter isWarning (trace (snd (filterTargets a m ts acc s))) =
     filter isWarning (trace s)
     @ (if enableLogging a then map (\<lambda>t. Print (warningLine t)) (filter (\<lambda>t. \<not> mapIndex m t) ts)
        else [])"
  by (induction ts arbitrary: acc s) (simp_all add: warnings_log_warning)

lemma mapIndex_makeDeviceMap_fun: "mapIndex (makeDeviceMap ds) = (\<lambda>t. t \<in> set ds)"
  by (rule ext) simp

lemma GetConnectedDevices_listed:
  assumes "adbAnswer os txt_devices [] (world s) = (True, output, e)"
  shows "fst (GetConnectedDevices a os s) =
           (if targetDevices a = [] then onlineDevices output
            else filter (\<lambda>t. t \<in> set (onlineDevices output)) (targetDevices a))"
    and "filter isWarning (trace (snd (snd (GetConnectedDevices a os s)))) =
           filter isWarning (trace s)
           @ (if enableLogging a
              then map (\<lambda>t. Print (warningLine t))
                     (filter (\<lambda>t. t \<notin> set (onlineDevices output)) (targetDevices a))
              else [])"
    and "connectedDevices (fst (snd (GetConnectedDevices a os s))) = fst (GetConnectedDevices a os s)"
  using assms
  by (simp_all add: GetConnectedDevices_def Let_def split_beta runADBCommand_eq onlineDevices_def
        filterTargets_result filterTargets_warnings warnings_log_other mapIndex_makeDeviceMap_fun)

lemma GetConnectedDevices_failed:
  assumes "\<not> fst (adbAnswer os txt_devices [] (world s))"
  shows "fst (GetConnectedDevices a os s) = []"
    and "filter isWarning (trace (snd (snd (GetConnectedDevices a os s)))) = filter isWarning (trace s)"
  using assms
  by (simp_all add: GetConnectedDevices_def Let_def split_beta runADBCommand_eq warnings_log_other)

lemma listOS_answer: "adbAnswer listOS txt_devices [] w = (True, TrimSpace listing, [])"
  by (simp add: adbAnswer_def resultIn_def runADBCommand_def listOS_def tableOS_def adbArgv_def
        fullCommand_def txt_devices_def okResult_def Let_def)

lemma trim_listing: "TrimSpace listing = ''List of devices attached'' @ [CHR 0x0A] @ ''D1'' @ [CHR 0x09] @ ''device''
             @ [CHR 0x0A] @ ''D4'' @ [CHR 0x09] @ ''offline''
             @ [CHR 0x0A] @ ''D2'' @ [CHR 0x09] @ ''device''"
  by (simp add: TrimSpace_def listing_def spaceEncodings_def)

lemma split_listing: "Split (TrimSpace listing) (CHR 0x0A) =
   [''List of devices attached'', ''D1'' @ [CHR 0x09] @ ''device'', ''D4'' @ [CHR 0x09] @ ''offline'',
    ''D2'' @ [CHR 0x09] @ ''device'']"
  by (simp add: trim_listing)

lemma scan_listing: "ScanLines (TrimSpace listing) =
   [''List of devices attached'', ''D1'' @ [CHR 0x09] @ ''device'', ''D4'' @ [CHR 0x09] @ ''offline'',
    ''D2'' @ [CHR 0x09] @ ''device'']"
  by (simp add: split_listing ScanLines_def MaxScanTokenSize_def dropCR_def)


lemma online_listing: "onlineDevices (TrimSpace listing) = [''D1'', ''D2'']"
  unfolding onlineDevices_def scan_listing
  by (simp add: TrimSpace_def spaceEncodings_def tabDevice_def txt_device_def)

text \<open>
  Where every line of the listing fits the scanner's buffer, the scanner yields the
  lines of the listing, each without its trailing carriage return, and the devices read
  are the ready ones among the lines after the first.
\<close>

lemma TrimSpace_Nil [simp]: "TrimSpace [] = []"
  by (simp add: TrimSpace_def)






lemma count_list_filter:
  "count_list (filter P xs) t = (if P t then count_list xs t else 0)"
  by (induction xs) auto




text \<open>
  Claim C10. The filter is not deduplicated: an online identifier occurs in the result
  as often as it occurs in the (non-empty) list of targets, so a device named twice is
  returned twice and \<open>ProcessDevices\<close> then runs it twice.
\<close>

theorem GetConnectedDevices_keeps_duplicates:
  assumes "adbAnswer os txt_devices [] (world s) = (True, output, e)"
    and "targetDevices a \<noteq> []"
    and "t \<in> set (onlineDevices output)"
  shows "count_list (fst (GetConnectedDevices a os s)) t = count_list (targetDevices a) t"
  using GetConnectedDevices_listed(1) [OF assms(1), where a = a] assms(2,3)
  by (simp add: count_list_filter)

theorem GetConnectedDevices_keeps_duplicates_witness:
  "adbAnswer listOS txt_devices [] (world start) = (True, TrimSpace listing, [])
   \<and> targetDevices twiceCaller = [''D1'', ''D1'']
   \<and> ''D1'' \<in> set (onlineDevices (TrimSpace listing))
   \<and> count_list (fst (GetConnectedDevices twiceCaller listOS start)) ''D1'' = 2
   \<and> fst (GetConnectedDevices twiceCaller listOS start) = [''D1'', ''D1'']
   \<and> fst (ProcessDevices twiceCaller listOS (\<lambda>i. 0) [0, 1]
            (fst (GetConnectedDevices twiceCaller listOS start)) start) = (0, [''D1'', ''D1''], 2)"
proof -
  have t: "targetDevices twiceCaller = [''D1'', ''D1'']"
    by (simp add: twiceCaller_def NewAndroidLockScreenDisabler_def)
  have ne: "targetDevices twiceCaller \<noteq> []" by (simp add: t)
  have on: "''D1'' \<in> set (onlineDevices (TrimSpace listing))" by (simp add: online_listing)
  have c: "count_list (fst (GetConnectedDevices twiceCaller listOS start)) ''D1'' = 2"
    using GetConnectedDevices_keeps_duplicates [where s = start, OF listOS_answer ne on] by (simp add: t)
  have r: "fst (GetConnectedDevices twiceCaller listOS start) = [''D1'', ''D1'']"
    using GetConnectedDevices_listed(1) [where s = start and a = twiceCaller, OF listOS_answer]
    by (simp add: t online_listing)
  have p: "fst (ProcessDevices twiceCaller listOS (\<lambda>i. 0) [0, 1] [''D1'', ''D1''] start)
             = (0, [''D1'', ''D1''], 2)"
    by code_simp
  from listOS_answer [of "world start"] t on c r p show ?thesis by simp
qed

section \<open>Waiting for the device\<close>

lemma adbArgv_inj [simp]: "adbArgv os c d = adbArgv os c' d \<longleftrightarrow> c = c'"
  by (simp add: adbArgv_def fullCommand_def)

lemma echo_not_get_state: "shellEchoTest \<noteq> txt_get_state"
  by (simp add: shellEchoTest_def txt_get_state_def txt_shell_echo_def)

lemma polls_log [simp]:
  "count_list (trace (log a m e s)) (Exec argv) = count_list (trace s) (Exec argv)"
  by (simp add: trace_log)

lemma polls_attempt:
  "count_list (trace (snd (WaitForDeviceReady_attempt a os d s))) (Exec (adbArgv os txt_get_state d))
     = count_list (trace s) (Exec (adbArgv os txt_get_state d)) + 1"
  using echo_not_get_state
  by (simp add: WaitForDeviceReady_attempt_def Let_def split_beta runADBCommand_eq)

lemma loop_step:
  assumes "int attempt < maxAttempts" "\<not> fst (WaitForDeviceReady_attempt a os d s)"
  shows "\<exists>s2. WaitForDeviceReady_loop a os d m maxAttempts attempt s
               = WaitForDeviceReady_loop a os d m maxAttempts (attempt + 1) s2
            \<and> count_list (trace s2) (Exec (adbArgv os txt_get_state d))
               = count_list (trace s) (Exec (adbArgv os txt_get_state d)) + 1"
proof -
  define s1 where "s1 = snd (WaitForDeviceReady_attempt a os d s)"
  define s2 where "s2 = sleep 5 (if (attempt + 1) mod 6 = 0
                               then log a (txt_Still_waiting_for_device @ d @ txt_dots_lparen
                                           @ Itoa (int ((attempt + 1) div 12)) @ ''/''
                                           @ Itoa m @ txt_sp_minutes_rparen)
                                      emojiHourglassDone s1
                               else s1)"
  have "WaitForDeviceReady_loop a os d m maxAttempts attempt s
          = WaitForDeviceReady_loop a os d m maxAttempts (attempt + 1) s2"
    using assms
    by (subst WaitForDeviceReady_loop.simps) (simp add: split_beta Let_def s2_def s1_def)
  moreover have "count_list (trace s2) (Exec (adbArgv os txt_get_state d))
               = count_list (trace s) (Exec (adbArgv os txt_get_state d)) + 1"
    using polls_attempt [of a os d s] by (simp add: s2_def s1_def)
  ultimately show ?thesis by blast
qed

lemma loop_polls:
  "count_list (trace (snd (WaitForDeviceReady_loop a os d m maxAttempts attempt s)))
       (Exec (adbArgv os txt_get_state d))
     \<le> count_list (trace s) (Exec (adbArgv os txt_get_state d)) + (nat maxAttempts - attempt)"
proof (induction "nat maxAttempts - attempt" arbitrary: attempt s)
  case 0
  then have "\<not> int attempt < maxAttempts" by simp
  then show ?case by (subst WaitForDeviceReady_loop.simps) simp
next
  case (Suc n)
  then have lt: "int attempt < maxAttempts" by linarith
  have n: "n = nat maxAttempts - (attempt + 1)" using Suc.hyps(2) by simp
  show ?case
  proof (cases "fst (WaitForDeviceReady_attempt a os d s)")
    case True
    then show ?thesis
      using lt polls_attempt [of a os d s] Suc.hyps(2)
      by (subst WaitForDeviceReady_loop.simps) (simp add: split_beta)
  next
    case False
    from loop_step [OF lt False, of m] obtain s2 where
      step: "WaitForDeviceReady_loop a os d m maxAttempts attempt s
               = WaitForDeviceReady_loop a os d m maxAttempts (attempt + 1) s2"
      and c: "count_list (trace s2) (Exec (adbArgv os txt_get_state d))
               = count_list (trace s) (Exec (adbArgv os txt_get_state d)) + 1"
      by blast
    from Suc.hyps(1) [OF n, of s2] c Suc.hyps(2) show ?thesis
      unfolding step by linarith
  qed
qed

lemma loop_never_ready:
  assumes never: "\<forall>s'. \<not> fst (WaitForDeviceReady_attempt a os d s')"
  shows "\<not> fst (WaitForDeviceReady_loop a os d m maxAttempts attempt s)
     \<and> count_list (trace (snd (WaitForDeviceReady_loop a os d m maxAttempts attempt s)))
         (Exec (adbArgv os txt_get_state d))
       = count_list (trace s) (Exec (adbArgv os txt_get_state d)) + (nat maxAttempts - attempt)"
proof (induction "nat maxAttempts - attempt" arbitrary: attempt s)
  case 0
  then have "\<not> int attempt < maxAttempts" by simp
  then show ?case by (subst (1 2) WaitForDeviceReady_loop.simps) simp
next
  case (Suc n)
  then have lt: "int attempt < maxAttempts" by linarith
  have n: "n = nat maxAttempts - (attempt + 1)" using Suc.hyps(2) by simp
  from never have f: "\<not> fst (WaitForDeviceReady_attempt a os d s)" by simp
  from loop_step [OF lt f, of m] obtain s2 where
    step: "WaitForDeviceReady_loop a os d m maxAttempts attempt s
             = WaitForDeviceReady_loop a os d m maxAttempts (attempt + 1) s2"
    and c: "count_list (trace s2) (Exec (adbArgv os txt_get_state d))
             = count_list (trace s) (Exec (adbArgv os txt_get_state d)) + 1"
    by blast
  from Suc.hyps(1) [OF n, of s2] c Suc.hyps(2) show ?case
    unfolding step by simp
qed

lemma goInt_le: "0 \<le> x \<Longrightarrow> goInt x \<le> x"
proof -
  assume "0 \<le> x"
  have "(x + 2 ^ 63) mod 2 ^ 64 \<le> x + 2 ^ 63"
    using \<open>0 \<le> x\<close> by (intro zmod_le_nonneg_dividend) simp
  then show ?thesis by (simp add: goInt_def)
qed

lemma goInt_small: "- (2 ^ 63) \<le> x \<Longrightarrow> x < 2 ^ 63 \<Longrightarrow> goInt x = x"
  by (simp add: goInt_def)


lemma attempt_result:
  "fst (WaitForDeviceReady_attempt a os d s)
     = (fst (adbAnswer os txt_get_state d (world s))
        \<and> fst (adbAnswer os shellEchoTest d (adbNext os txt_get_state d (world s))))"
  by (simp add: WaitForDeviceReady_attempt_def Let_def split_beta runADBCommand_eq)

text \<open>
  C8. \<open>WaitForDeviceReady\<close> polls the device (runs \<open>get-state\<close>) at most
  \<open>maxWaitMinutes * 12\<close> times, the product being Go's; for a wait that is not negative
  this is at most the product of the numbers. On a device that never answers both
  \<open>get-state\<close> and the shell test that follows it, it makes exactly that many polls and
  returns false.
\<close>

theorem WaitForDeviceReady_bounded:
  "polls os d (snd (WaitForDeviceReady a os d m s)) \<le> polls os d s + nat (goInt (m * 12))
   \<and> (0 \<le> m \<longrightarrow> polls os d (snd (WaitForDeviceReady a os d m s)) \<le> polls os d s + nat (m * 12))
   \<and> ((\<forall>w. \<not> (fst (adbAnswer os txt_get_state d w)
                \<and> fst (adbAnswer os shellEchoTest d (adbNext os txt_get_state d w))))
        \<longrightarrow> fst (WaitForDeviceReady a os d m s) = False
            \<and> polls os d (snd (WaitForDeviceReady a os d m s)) = polls os d s + nat (goInt (m * 12)))"
proof -
  let ?s1 = "log a (txt_Waiting_for_device @ d @ txt_sp_to_be_ready_after_reboot) emojiHourglass s"
  have w: "WaitForDeviceReady a os d m s
             = WaitForDeviceReady_loop a os d m (goInt (m * 12)) 0 ?s1"
    by (simp add: WaitForDeviceReady_def Let_def)
  have b: "polls os d (snd (WaitForDeviceReady a os d m s)) \<le> polls os d s + nat (goInt (m * 12))"
    unfolding w polls_def
    using loop_polls [of a os d m "goInt (m * 12)" 0 ?s1] by simp
  have c: "polls os d (snd (WaitForDeviceReady a os d m s)) \<le> polls os d s + nat (m * 12)"
    if "0 \<le> m"
  proof -
    from that have "goInt (m * 12) \<le> m * 12" by (intro goInt_le) simp
    with b show ?thesis by linarith
  qed
  have n: "fst (WaitForDeviceReady a os d m s) = False
            \<and> polls os d (snd (WaitForDeviceReady a os d m s)) = polls os d s + nat (goInt (m * 12))"
    if "\<forall>w. \<not> (fst (adbAnswer os txt_get_state d w)
                \<and> fst (adbAnswer os shellEchoTest d (adbNext os txt_get_state d w)))"
  proof -
    from that have "\<forall>s'. \<not> fst (WaitForDeviceReady_attempt a os d s')"
      by (simp add: attempt_result)
    from loop_never_ready [OF this, of m "goInt (m * 12)" 0 ?s1] show ?thesis
      unfolding w polls_def by simp
  qed
  from b c n show ?thesis by blast
qed

lemma seenOS_get_state:
  "fst (adbAnswer seenOS txt_get_state ''D1'' w) = True"
  by (simp add: adbAnswer_def resultIn_def runADBCommand_def seenOS_def
        tableOS_def adbArgv_def okResult_def Let_def emit_def
        fullCommand_def txt_get_state_def)

lemma seenOS_echo:
  "fst (adbAnswer seenOS shellEchoTest ''D1'' w) = False"
  by (simp add: adbAnswer_def resultIn_def runADBCommand_def seenOS_def
        tableOS_def adbArgv_def failResult_def Let_def emit_def
        fullCommand_def txt_get_state_def shellEchoTest_def txt_shell_echo_def txt_test_def)

theorem WaitForDeviceReady_bounded_witness:
  "fst (adbAnswer seenOS txt_get_state ''D1'' 0) = True
   \<and> fst (WaitForDeviceReady (NewAndroidLockScreenDisabler []) seenOS ''D1'' 1 start) = False
   \<and> polls seenOS ''D1'' (snd (WaitForDeviceReady (NewAndroidLockScreenDisabler []) seenOS ''D1'' 1 start)) = 12"
  using WaitForDeviceReady_bounded [of seenOS "''D1''" "NewAndroidLockScreenDisabler []" 1 start]
  by (simp add: seenOS_get_state seenOS_echo polls_def start_def goInt_def)

section \<open>A device without a lock\<close>

lemma grows_if:
  "grows P s (snd (if c then x else y)) = (if c then grows P s (snd x) else grows P s (snd y))"
  by simp

lemma grows_GetDeviceInfo:
  assumes "\<And>c. c \<in> set inspectionCommands \<Longrightarrow> P (Exec (adbArgv os c d))" "grows P s s'"
  shows "grows P s (snd (GetDeviceInfo a os d s'))"
  using assms
  by (simp add: GetDeviceInfo_def Let_def split_beta inspectionCommands_def grows_run)

lemma grows_CheckDevicePermissions:
  assumes "\<And>l. P (Print l)"
    "\<And>c. c \<in> set inspectionCommands \<Longrightarrow> P (Exec (adbArgv os c d))" "grows P s s'"
  shows "grows P s (snd (CheckDevicePermissions a os d s'))"
  using assms
  by (simp add: CheckDevicePermissions_def Let_def split_beta inspectionCommands_def grows_run
        grows_log)

lemma grows_lockMethodsLoop:
  assumes "\<And>c. c \<in> set ms \<Longrightarrow> P (Exec (adbArgv os c d))" "grows P s s'"
  shows "grows P s (snd (lockMethodsLoop os d b ms s'))"
  using assms
proof (induction ms arbitrary: s')
  case Nil
  then show ?case by simp
next
  case (Cons m ms)
  have "grows P s (snd (runADBCommand os m d s'))"
    using Cons.prems by (simp add: grows_run)
  with Cons show ?case by (simp add: Let_def split_beta)
qed

lemma grows_CheckExistingLockScreen:
  assumes p: "\<And>l. P (Print l)"
    and e: "\<And>c. c \<in> set inspectionCommands \<Longrightarrow> P (Exec (adbArgv os c d))"
    and g: "grows P s s'"
  shows "grows P s (snd (CheckExistingLockScreen a os d s'))"
proof -
  have l: "\<And>c. c \<in> set lockMethods \<Longrightarrow> P (Exec (adbArgv os c d))"
    using e by (auto simp: lockMethods_def inspectionCommands_def)
  have r: "\<And>c t. c \<in> set inspectionCommands \<Longrightarrow> grows P s t
               \<Longrightarrow> grows P s (snd (runADBCommand os c d t))"
    using e by (simp add: grows_run)
  have lm: "\<And>b t. grows P s t \<Longrightarrow> grows P s (snd (lockMethodsLoop os d b lockMethods t))"
    using grows_lockMethodsLoop [where P = P and os = os and d = d and ms = lockMethods] l
    by blast
  show ?thesis
    using p g
    by (simp add: CheckExistingLockScreen_def Let_def split_beta inspectionCommands_def
          grows_log r lm split: option.split)
qed


lemma inspects_Print: "inspects os d (Print l)"
  by (simp add: inspects_def isPrint_def)

lemma inspects_Exec: "c \<in> set inspectionCommands \<Longrightarrow> inspects os d (Exec (adbArgv os c d))"
  by (simp add: inspects_def)

lemma inspects_log: "grows (inspects os d) s s' \<Longrightarrow> grows (inspects os d) s (log a m e s')"
  by (rule grows_log) (simp_all add: inspects_Print)

lemma inspects_GetDeviceInfo:
  "grows (inspects os d) s s' \<Longrightarrow> grows (inspects os d) s (snd (GetDeviceInfo a os d s'))"
  by (rule grows_GetDeviceInfo) (simp_all add: inspects_Exec)

lemma inspects_CheckDevicePermissions:
  "grows (inspects os d) s s' \<Longrightarrow> grows (inspects os d) s (snd (CheckDevicePermissions a os d s'))"
  by (rule grows_CheckDevicePermissions) (simp_all add: inspects_Exec inspects_Print)

lemma inspects_CheckExistingLockScreen:
  "grows (inspects os d) s s' \<Longrightarrow> grows (inspects os d) s (snd (CheckExistingLockScreen a os d s'))"
  by (rule grows_CheckExistingLockScreen) (simp_all add: inspects_Exec inspects_Print)

lemma lockMethodsLoop_worldOnly:
  "world s = world s' \<Longrightarrow>
   fst (lockMethodsLoop os d b ms s) = fst (lockMethodsLoop os d b ms s') \<and>
   world (snd (lockMethodsLoop os d b ms s)) = world (snd (lockMethodsLoop os d b ms s'))"
proof (induction ms arbitrary: s s')
  case Nil
  then show ?case by simp
next
  case (Cons m ms)
  let ?r = "runADBCommand os m d"
  have a: "fst (?r s) = fst (?r s')" and w: "world (snd (?r s)) = world (snd (?r s'))"
    using Cons.prems by (simp_all add: runADBCommand_eq)
  from Cons.IH [OF w]
  have ih1: "fst (lockMethodsLoop os d b ms (snd (?r s))) = fst (lockMethodsLoop os d b ms (snd (?r s')))"
    and ih2: "world (snd (lockMethodsLoop os d b ms (snd (?r s))))
              = world (snd (lockMethodsLoop os d b ms (snd (?r s'))))"
    by simp_all
  show ?case
    by (simp only: lockMethodsLoop.simps Let_def split_beta a if_distrib [of fst]
          if_distrib [of "\<lambda>x. world (snd x)"] fst_conv snd_conv ih1 ih2 w)
qed

lemma worldOnly_lockMethodsLoop: "worldOnly (lockMethodsLoop os d b ms)"
  by (rule worldOnlyI) (rule lockMethodsLoop_worldOnly)

lemma worldOnly_CheckExistingLockScreen: "worldOnly (CheckExistingLockScreen a os d)"
proof (rule worldOnlyI)
  fix s s' :: "'a st"
  assume w: "world s = world s'"
  show "fst (CheckExistingLockScreen a os d s) = fst (CheckExistingLockScreen a os d s')
      \<and> world (snd (CheckExistingLockScreen a os d s)) = world (snd (CheckExistingLockScreen a os d s'))"
    using w
    by (simp add: CheckExistingLockScreen_def runADBCommand_eq Let_def split_beta
          worldOnly_result [OF worldOnly_lockMethodsLoop]
          worldOnly_world [OF worldOnly_lockMethodsLoop]
          if_distrib [of fst] if_distrib [of "\<lambda>x. world (snd x)"]
          option.case_distrib [of fst] option.case_distrib [of "\<lambda>x. world (snd x)"]
          split del: if_split cong del: if_weak_cong option.case_cong_weak)
qed

lemma inspection_not_remediation:
  "set inspectionCommands \<inter> set (txt_reboot # remediationCommands) = {}"
  by (simp add: inspectionCommands_def remediationCommands_def shellEchoTest_def
        txt_reboot_def txt_shell_getprop_ro_product_model_def
        txt_shell_getprop_ro_product_manufacturer_def
        txt_shell_getprop_ro_build_version_release_def txt_shell_getprop_ro_build_version_sdk_def
        txt_shell_echo_def txt_test_def txt_shell_settings_list_secure_def
        txt_shell_dumpsys_trust_def txt_shell_locksettings_get_disabled_def
        txt_shell_dumpsys_activity_services_KeyguardService_def
        txt_shell_settings_get_secure_lock_pattern_enabled_def
        txt_shell_settings_get_secure_lockscreen_password_type_def
        txt_shell_settings_get_secure_lockscreen_disabled_def
        txt_shell_dumpsys_device_policy_def
        txt_shell_locksettings_clear_def txt_shell_locksettings_set_disabled_true_def
        txt_shell_settings_put_secure_lockscreen_disabled_1_def
        txt_shell_settings_put_system_lockscreen_disabled_1_def
        txt_shell_settings_put_global_device_provisioned_1_def
        txt_shell_settings_put_secure_user_setup_complete_1_def)

lemma inspects_not_remediation:
  assumes "inspects os d e" "c \<in> set (txt_reboot # remediationCommands)"
  shows "e \<noteq> Exec (adbArgv os c d)"
proof
  assume e: "e = Exec (adbArgv os c d)"
  with assms(1) have "c \<in> set inspectionCommands"
    by (auto simp: inspects_def isPrint_def)
  with assms(2) inspection_not_remediation show False by blast
qed

text \<open>
  C7. When the permissions check passes and the inspection, in the world the check
  leaves, reports no lock, the orchestration records a success, leaves the device as the
  inspection left it, and has only printed lines and run commands of the inspections:
  none of the commands of the four remediation methods, and no reboot.
\<close>

theorem DisableLockscreenOnDeviceAsync_no_lock:
  assumes perm: "resultIn (CheckDevicePermissions a os d)
                   (worldAfter (GetDeviceInfo a os d) (world s))"
    and nolock: "\<not> fst (resultIn (CheckExistingLockScreen a os d)
                   (worldAfter (CheckDevicePermissions a os d)
                      (worldAfter (GetDeviceInfo a os d) (world s))))"
  shows "fst (DisableLockscreenOnDeviceAsync a os d stats s) = IncrementSuccess stats
    \<and> world (snd (DisableLockscreenOnDeviceAsync a os d stats s))
        = worldAfter (CheckExistingLockScreen a os d)
            (worldAfter (CheckDevicePermissions a os d)
               (worldAfter (GetDeviceInfo a os d) (world s)))
    \<and> list_all (inspects os d) (since s (snd (DisableLockscreenOnDeviceAsync a os d stats s)))
    \<and> (\<forall>c \<in> set (txt_reboot # remediationCommands).
          Exec (adbArgv os c d) \<notin> set (since s (snd (DisableLockscreenOnDeviceAsync a os d stats s))))"
proof -
  let ?tag = "''['' @ d @ '']''"
  define s1 where "s1 = log a (?tag @ txt_sp_Starting_lock_screen_disable_process) emojiRocket s"
  define s2 where "s2 = snd (GetDeviceInfo a os d s1)"
  define info where "info = fst (GetDeviceInfo a os d s1)"
  define s3 where "s3 = log a (?tag @ txt_sp_Device @ Manufacturer info @ '' '' @ Model info
                      @ txt_sp_Android @ AndroidVersion info @ txt_comma_API
                      @ APILevel info @ '')'') emojiClipboard s2"
  define s4 where "s4 = snd (CheckDevicePermissions a os d s3)"
  define s5 where "s5 = snd (CheckExistingLockScreen a os d s4)"
  define s6 where "s6 = log a (?tag @ txt_sp_Device_is_already_unlocked_or_has_no_lock_configured)
                      emojiCheck
                      (log a (?tag @ txt_sp_No_lock_screen_detected_on_device
                              @ txt_Skipping_lock_screen_disable_process) emojiInfo s5)"
  have w3: "world s3 = worldAfter (GetDeviceInfo a os d) (world s)"
    by (simp add: s3_def s2_def s1_def worldOnly_world [OF worldOnly_GetDeviceInfo])
  have w4: "world s4 = worldAfter (CheckDevicePermissions a os d) (world s3)"
    by (simp add: s4_def worldOnly_world [OF worldOnly_CheckDevicePermissions])
  have p: "fst (CheckDevicePermissions a os d s3)"
    using perm by (simp add: worldOnly_result [OF worldOnly_CheckDevicePermissions] w3)
  have n: "\<not> fst (fst (CheckExistingLockScreen a os d s4))"
    using nolock by (simp add: worldOnly_result [OF worldOnly_CheckExistingLockScreen] w4 w3)
  have run: "DisableLockscreenOnDeviceAsync a os d stats s = (IncrementSuccess stats, s6)"
    using p n
    unfolding DisableLockscreenOnDeviceAsync_def Let_def split_beta
      s6_def s5_def s4_def s3_def info_def s2_def s1_def
    by simp
  have w6: "world s6 = worldAfter (CheckExistingLockScreen a os d) (world s4)"
    by (simp add: s6_def s5_def worldOnly_world [OF worldOnly_CheckExistingLockScreen])
  have "grows (inspects os d) s s1" unfolding s1_def by (rule inspects_log) simp
  then have "grows (inspects os d) s s2" unfolding s2_def by (rule inspects_GetDeviceInfo)
  then have "grows (inspects os d) s s3" unfolding s3_def by (rule inspects_log)
  then have "grows (inspects os d) s s4" unfolding s4_def
    by (rule inspects_CheckDevicePermissions)
  then have "grows (inspects os d) s s5" unfolding s5_def
    by (rule inspects_CheckExistingLockScreen)
  then have "grows (inspects os d) s s6" unfolding s6_def
    by (intro inspects_log)
  then have all: "list_all (inspects os d) (since s s6)" by (rule grows_since)
  have none: "\<forall>c \<in> set (txt_reboot # remediationCommands). Exec (adbArgv os c d) \<notin> set (since s s6)"
  proof (intro ballI notI)
    fix c assume c: "c \<in> set (txt_reboot # remediationCommands)"
      and "Exec (adbArgv os c d) \<in> set (since s s6)"
    with all have "inspects os d (Exec (adbArgv os c d))" by (simp add: list_all_iff)
    from inspects_not_remediation [OF this c] show False by simp
  qed
  show ?thesis
    unfolding run fst_conv snd_conv using w6 w4 w3 all none by simp
qed


lemma noLockOS_other:
  assumes "c \<noteq> shellEchoTest" "c \<noteq> txt_shell_settings_list_secure"
  shows "fst (adbAnswer noLockOS c ''D1'' w) = False"
  using assms
  by (simp add: adbAnswer_def resultIn_def runADBCommand_def noLockOS_def tableOS_def adbArgv_def
        fullCommand_def failResult_def Let_def)

lemma noLockOS_permissions:
  "fst (adbAnswer noLockOS shellEchoTest ''D1'' w) = True
   \<and> fst (adbAnswer noLockOS txt_shell_settings_list_secure ''D1'' w) = True
   \<and> fst (snd (adbAnswer noLockOS txt_shell_settings_list_secure ''D1'' w)) = ''adb_enabled=1''"
  by (simp add: adbAnswer_def resultIn_def runADBCommand_def noLockOS_def tableOS_def adbArgv_def
        fullCommand_def okResult_def Let_def shellEchoTest_def txt_shell_echo_def txt_test_def
        txt_shell_settings_list_secure_def TrimSpace_def spaceEncodings_def)

lemma noLockOS_permitted: "resultIn (CheckDevicePermissions a noLockOS ''D1'') w"
  by (simp add: resultIn_def CheckDevicePermissions_def Let_def split_beta runADBCommand_eq
        noLockOS_permissions)

lemma noLockOS_inspection:
  "fst (adbAnswer noLockOS txt_shell_dumpsys_trust ''D1'' w) = False
   \<and> fst (adbAnswer noLockOS txt_shell_locksettings_get_disabled ''D1'' w) = False
   \<and> fst (adbAnswer noLockOS txt_shell_dumpsys_activity_services_KeyguardService ''D1'' w) = False
   \<and> fst (adbAnswer noLockOS txt_shell_settings_get_secure_lock_pattern_enabled ''D1'' w) = False
   \<and> fst (adbAnswer noLockOS txt_shell_settings_get_secure_lockscreen_password_type ''D1'' w) = False
   \<and> fst (adbAnswer noLockOS txt_shell_settings_get_secure_lockscreen_disabled ''D1'' w) = False
   \<and> fst (adbAnswer noLockOS txt_shell_dumpsys_device_policy ''D1'' w) = False"
  by (intro conjI noLockOS_other)
     (simp_all add: shellEchoTest_def txt_shell_echo_def txt_test_def
        txt_shell_settings_list_secure_def
        txt_shell_dumpsys_trust_def txt_shell_locksettings_get_disabled_def
        txt_shell_dumpsys_activity_services_KeyguardService_def
        txt_shell_settings_get_secure_lock_pattern_enabled_def
        txt_shell_settings_get_secure_lockscreen_password_type_def
        txt_shell_settings_get_secure_lockscreen_disabled_def
        txt_shell_dumpsys_device_policy_def)

lemma noLockOS_no_lock:
  "fst (resultIn (CheckExistingLockScreen a noLockOS ''D1'') w) = False"
  by (simp add: resultIn_def CheckExistingLockScreen_def Let_def split_beta runADBCommand_eq
        lockMethods_def noLockOS_inspection)

theorem DisableLockscreenOnDeviceAsync_no_lock_witness:
  "resultIn (CheckDevicePermissions (NewAndroidLockScreenDisabler []) noLockOS ''D1'')
      (worldAfter (GetDeviceInfo (NewAndroidLockScreenDisabler []) noLockOS ''D1'') (world start)) = True
   \<and> fst (resultIn (CheckExistingLockScreen (NewAndroidLockScreenDisabler []) noLockOS ''D1'')
             (worldAfter (CheckDevicePermissions (NewAndroidLockScreenDisabler []) noLockOS ''D1'')
                (worldAfter (GetDeviceInfo (NewAndroidLockScreenDisabler []) noLockOS ''D1'')
                   (world start)))) = False
   \<and> fst (DisableLockscreenOnDeviceAsync (NewAndroidLockScreenDisabler []) noLockOS ''D1''
             (NewProcessingStats 1) start)
       = \<lparr>successCount = 1, failedDevices = [], totalDevices = 1\<rparr>
   \<and> list_all (inspects noLockOS ''D1'')
        (since start (snd (DisableLockscreenOnDeviceAsync (NewAndroidLockScreenDisabler []) noLockOS
                             ''D1'' (NewProcessingStats 1) start)))"
  using DisableLockscreenOnDeviceAsync_no_lock [of "NewAndroidLockScreenDisabler []" noLockOS
          "''D1''" start "NewProcessingStats 1"]
  by (simp add: noLockOS_permitted noLockOS_no_lock IncrementSuccess_def NewProcessingStats_def)

section \<open>The lock inspection\<close>

lemma lockMethods_words:
  "Contains txt_shell_settings_get_secure_lock_pattern_enabled txt_lock_pattern_enabled
   \<and> \<not> Contains txt_shell_settings_get_secure_lockscreen_password_type txt_lock_pattern_enabled
   \<and> Contains txt_shell_settings_get_secure_lockscreen_password_type txt_password_type
   \<and> \<not> Contains txt_shell_settings_get_secure_lock_pattern_enabled txt_password_type
   \<and> \<not> Contains txt_shell_settings_get_secure_lock_pattern_enabled txt_lockscreen_disabled
   \<and> \<not> Contains txt_shell_settings_get_secure_lockscreen_password_type txt_lockscreen_disabled
   \<and> \<not> Contains txt_shell_settings_get_secure_lockscreen_disabled txt_lock_pattern_enabled
   \<and> \<not> Contains txt_shell_settings_get_secure_lockscreen_disabled txt_password_type
   \<and> Contains txt_shell_settings_get_secure_lockscreen_disabled txt_lockscreen_disabled"
  by (simp add: txt_shell_settings_get_secure_lock_pattern_enabled_def
        txt_shell_settings_get_secure_lockscreen_password_type_def
        txt_shell_settings_get_secure_lockscreen_disabled_def
        txt_lock_pattern_enabled_def txt_password_type_def txt_lockscreen_disabled_def)

lemma lockMethodsLoop_suppressed:
  "lockMethodsLoop os d True lockMethods s =
     (let (r1, s1) = runADBCommand os txt_shell_settings_get_secure_lock_pattern_enabled d s
      in if patternOn r1 then (Some (True, txt_Device_has_lock_pattern_enabled), s1)
         else let (r2, s2) = runADBCommand os txt_shell_settings_get_secure_lockscreen_password_type d s1
              in if passwordOn r2
                 then (Some (True, txt_Device_has_password_type_configured_type @ fst (snd r2) @ '')''), s2)
                 else (None, snd (runADBCommand os txt_shell_settings_get_secure_lockscreen_disabled d s2)))"
  by (simp add: lockMethods_def Let_def split_beta patternOn_def passwordOn_def lockMethods_words
        txt_null_def)

lemma ToLower_true: "Contains (ToLower os ''true'') txt_true"
  by (simp add: ToLower_def isASCII_def lowerByte_def txt_true_def)


lemma reports_two:
  "(fst r \<and> fst (snd r) \<noteq> []
      \<and> (Contains (ToLower os (fst (snd r))) x \<or> Contains (ToLower os (fst (snd r))) y))
   = reports os [x, y] r"
  by (simp add: reports_def)

text \<open>
  With \<open>get-disabled\<close> answering \<open>true\<close>, the inspection is a chain of five tests; the
  worlds \<open>w1\<close> to \<open>w6\<close> are those the commands leave one after the other.
\<close>

lemma CheckExistingLockScreen_suppressed:
  assumes w1: "w1 = adbNext os txt_shell_dumpsys_trust d (world s)"
    and gd: "adbAnswer os txt_shell_locksettings_get_disabled d w1 = (True, ''true'', e)"
    and w2: "w2 = adbNext os txt_shell_locksettings_get_disabled d w1"
    and w3: "w3 = adbNext os txt_shell_dumpsys_activity_services_KeyguardService d w2"
    and w4: "w4 = adbNext os txt_shell_settings_get_secure_lock_pattern_enabled d w3"
    and w5: "w5 = adbNext os txt_shell_settings_get_secure_lockscreen_password_type d w4"
    and w6: "w6 = adbNext os txt_shell_settings_get_secure_lockscreen_disabled d w5"
  shows "fst (CheckExistingLockScreen a os d s) =
     (if reports os [txt_isdevicesecure_true, txt_iskeyguardsecure_true]
                (adbAnswer os txt_shell_dumpsys_trust d (world s))
      then (True, txt_Device_has_secure_lock_screen_detected_via_trust_manager)
      else if reports os [txt_secure_true, txt_enabled_true]
                (adbAnswer os txt_shell_dumpsys_activity_services_KeyguardService d w2)
      then (True, txt_Device_has_keyguard_enabled_detected_via_KeyguardService)
      else if patternOn (adbAnswer os txt_shell_settings_get_secure_lock_pattern_enabled d w3)
      then (True, txt_Device_has_lock_pattern_enabled)
      else if passwordOn (adbAnswer os txt_shell_settings_get_secure_lockscreen_password_type d w4)
      then (True, txt_Device_has_password_type_configured_type
                  @ fst (snd (adbAnswer os txt_shell_settings_get_secure_lockscreen_password_type d w4))
                  @ '')'')
      else if reports os [txt_passwordquality, txt_minimumpasswordlength]
                (adbAnswer os txt_shell_dumpsys_device_policy d w6)
      then (True, txt_Device_has_admin_enforced_password_policy)
      else (False, txt_No_lock_screen_detected))
   \<and> filter isExec (trace (snd (CheckExistingLockScreen a os d s))) =
       filter isExec (trace s) @ map (\<lambda>c. Exec (adbArgv os c d))
         (take (if reports os [txt_isdevicesecure_true, txt_iskeyguardsecure_true]
                (adbAnswer os txt_shell_dumpsys_trust d (world s))
                then 1
                else if reports os [txt_secure_true, txt_enabled_true]
                (adbAnswer os txt_shell_dumpsys_activity_services_KeyguardService d w2)
                then 3
                else if patternOn (adbAnswer os txt_shell_settings_get_secure_lock_pattern_enabled d w3)
                then 4
                else if passwordOn (adbAnswer os txt_shell_settings_get_secure_lockscreen_password_type d w4)
                then 5 else 7) lockInspection)"
proof -
  let ?s1 = "log a (txt_Checking_if_device @ d @ txt_sp_has_existing_lock_screen_configured)
               emojiMagnifier s"
  let ?s2 = "snd (runADBCommand os txt_shell_dumpsys_trust d ?s1)"
  let ?s3 = "snd (runADBCommand os txt_shell_locksettings_get_disabled d ?s2)"
  let ?s4 = "snd (runADBCommand os txt_shell_dumpsys_activity_services_KeyguardService d ?s3)"
  let ?s5 = "snd (runADBCommand os txt_shell_settings_get_secure_lock_pattern_enabled d ?s4)"
  let ?s6 = "snd (runADBCommand os txt_shell_settings_get_secure_lockscreen_password_type d ?s5)"
  let ?s7 = "snd (runADBCommand os txt_shell_settings_get_secure_lockscreen_disabled d ?s6)"
  let ?s8 = "snd (runADBCommand os txt_shell_dumpsys_device_policy d ?s7)"
  let ?T = "reports os [txt_isdevicesecure_true, txt_iskeyguardsecure_true]
                (adbAnswer os txt_shell_dumpsys_trust d (world s))"
  let ?K = "reports os [txt_secure_true, txt_enabled_true]
                (adbAnswer os txt_shell_dumpsys_activity_services_KeyguardService d w2)"
  let ?P = "patternOn (adbAnswer os txt_shell_settings_get_secure_lock_pattern_enabled d w3)"
  let ?W = "passwordOn (adbAnswer os txt_shell_settings_get_secure_lockscreen_password_type d w4)"
  let ?Q = "reports os [txt_passwordquality, txt_minimumpasswordlength]
                (adbAnswer os txt_shell_dumpsys_device_policy d w6)"
  have ws: "world ?s2 = w1" "world ?s3 = w2" "world ?s4 = w3" "world ?s5 = w4" "world ?s6 = w5"
    "world ?s7 = w6"
    by (simp_all add: runADBCommand_eq w1 w2 w3 w4 w5 w6)
  have r1: "fst (runADBCommand os txt_shell_dumpsys_trust d ?s1)
              = adbAnswer os txt_shell_dumpsys_trust d (world s)"
    by (simp add: runADBCommand_eq)
  have r2: "fst (runADBCommand os txt_shell_locksettings_get_disabled d ?s2) = (True, ''true'', e)"
    using gd by (simp add: runADBCommand_eq [of os txt_shell_locksettings_get_disabled] ws)
  have r3: "fst (runADBCommand os txt_shell_dumpsys_activity_services_KeyguardService d ?s3)
              = adbAnswer os txt_shell_dumpsys_activity_services_KeyguardService d w2"
    by (simp add: runADBCommand_eq [of os txt_shell_dumpsys_activity_services_KeyguardService] ws)
  have r4: "fst (runADBCommand os txt_shell_settings_get_secure_lock_pattern_enabled d ?s4)
              = adbAnswer os txt_shell_settings_get_secure_lock_pattern_enabled d w3"
    by (simp add: runADBCommand_eq [of os txt_shell_settings_get_secure_lock_pattern_enabled] ws)
  have r5: "fst (runADBCommand os txt_shell_settings_get_secure_lockscreen_password_type d ?s5)
              = adbAnswer os txt_shell_settings_get_secure_lockscreen_password_type d w4"
    by (simp add: runADBCommand_eq [of os txt_shell_settings_get_secure_lockscreen_password_type] ws)
  have r8: "fst (runADBCommand os txt_shell_dumpsys_device_policy d ?s7)
              = adbAnswer os txt_shell_dumpsys_device_policy d w6"
    by (simp add: runADBCommand_eq [of os txt_shell_dumpsys_device_policy] ws)
  have run: "CheckExistingLockScreen a os d s =
     (if ?T then ((True, txt_Device_has_secure_lock_screen_detected_via_trust_manager), ?s2)
      else if ?K then ((True, txt_Device_has_keyguard_enabled_detected_via_KeyguardService), ?s4)
      else if ?P then ((True, txt_Device_has_lock_pattern_enabled), ?s5)
      else if ?W then ((True, txt_Device_has_password_type_configured_type
                         @ fst (snd (adbAnswer os txt_shell_settings_get_secure_lockscreen_password_type d w4))
                         @ '')''), ?s6)
      else if ?Q then ((True, txt_Device_has_admin_enforced_password_policy), ?s8)
      else ((False, txt_No_lock_screen_detected), ?s8))"
    unfolding CheckExistingLockScreen_def Let_def split_beta lockMethodsLoop_suppressed
      r1 r2 r3 r4 r5 r8 fst_conv snd_conv reports_two
    by (simp add: ToLower_true lockMethodsLoop_suppressed split_beta Let_def r4 r5 r8)
  have res: "fst (CheckExistingLockScreen a os d s) =
     (if ?T then (True, txt_Device_has_secure_lock_screen_detected_via_trust_manager)
      else if ?K then (True, txt_Device_has_keyguard_enabled_detected_via_KeyguardService)
      else if ?P then (True, txt_Device_has_lock_pattern_enabled)
      else if ?W then (True, txt_Device_has_password_type_configured_type
                         @ fst (snd (adbAnswer os txt_shell_settings_get_secure_lockscreen_password_type d w4))
                         @ '')'')
      else if ?Q then (True, txt_Device_has_admin_enforced_password_policy)
      else (False, txt_No_lock_screen_detected))"
    unfolding run by simp
  have ex: "filter isExec (trace (snd (CheckExistingLockScreen a os d s))) =
       filter isExec (trace s) @ map (\<lambda>c. Exec (adbArgv os c d))
         (take (if ?T then 1 else if ?K then 3 else if ?P then 4 else if ?W then 5 else 7)
            lockInspection)"
    unfolding run by (simp add: lockInspection_def)
  from res ex show ?thesis by (rule conjI)
qed

lemma tableOS_answer:
  "adbAnswer (tableOS tbl) c d w =
     (case map_of tbl (fullCommand c d) of Some out \<Rightarrow> (True, TrimSpace out, [])
      | None \<Rightarrow> (False, [], ''exit status 1''))"
  by (simp add: adbAnswer_def resultIn_def runADBCommand_def tableOS_def adbArgv_def okResult_def
        failResult_def Let_def split: option.split)

lemma tableOS_next: "adbNext (tableOS tbl) c d w = Suc w"
  by (simp add: adbNext_def worldAfter_def runADBCommand_def tableOS_def emit_def Let_def
        split: option.split list.split)

lemma fullCommand_inj: "fullCommand c d = fullCommand c' d \<longleftrightarrow> c = c'"
  by (simp add: fullCommand_def)

lemmas lockInspection_texts =
  txt_shell_dumpsys_trust_def txt_shell_locksettings_get_disabled_def
  txt_shell_dumpsys_activity_services_KeyguardService_def
  txt_shell_settings_get_secure_lock_pattern_enabled_def
  txt_shell_settings_get_secure_lockscreen_password_type_def
  txt_shell_settings_get_secure_lockscreen_disabled_def
  txt_shell_dumpsys_device_policy_def

lemma keyguardOS_answers:
  "adbAnswer keyguardOS txt_shell_dumpsys_trust ''D1'' w = (False, [], ''exit status 1'')
   \<and> adbAnswer keyguardOS txt_shell_locksettings_get_disabled ''D1'' w = (True, ''true'', [])
   \<and> adbAnswer keyguardOS txt_shell_dumpsys_activity_services_KeyguardService ''D1'' w
       = (True, ''secure=true'', [])"
  by (simp add: keyguardOS_def tableOS_answer fullCommand_inj lockInspection_texts
        TrimSpace_def spaceEncodings_def)

lemma disabledOS_answers:
  "adbAnswer disabledOS txt_shell_dumpsys_trust ''D1'' w = (False, [], ''exit status 1'')
   \<and> adbAnswer disabledOS txt_shell_locksettings_get_disabled ''D1'' w = (True, ''true'', [])
   \<and> adbAnswer disabledOS txt_shell_dumpsys_activity_services_KeyguardService ''D1'' w
       = (False, [], ''exit status 1'')
   \<and> adbAnswer disabledOS txt_shell_settings_get_secure_lock_pattern_enabled ''D1'' w
       = (False, [], ''exit status 1'')
   \<and> adbAnswer disabledOS txt_shell_settings_get_secure_lockscreen_password_type ''D1'' w
       = (False, [], ''exit status 1'')
   \<and> adbAnswer disabledOS txt_shell_dumpsys_device_policy ''D1'' w
       = (False, [], ''exit status 1'')"
  by (simp add: disabledOS_def tableOS_answer fullCommand_inj lockInspection_texts
        TrimSpace_def spaceEncodings_def)

lemma reports_secure: "reports os [txt_secure_true, txt_enabled_true] (True, ''secure=true'', [])"
  by (simp add: reports_def ToLower_def isASCII_def lowerByte_def txt_secure_true_def)

lemma lockInspection_all: "take 7 lockInspection = lockInspection"
  by (simp add: lockInspection_def)

lemma reports_failed: "\<not> reports os words (False, out, err)"
  by (simp add: reports_def)

text \<open>
  A device that answers \<open>true\<close> to \<open>locksettings get-disabled\<close> and whose keyguard
  service says \<open>secure=true\<close>: the inspection consults the keyguard service and reports a
  lock.
\<close>

theorem CheckExistingLockScreen_keyguard_counterexample:
  "adbAnswer keyguardOS txt_shell_locksettings_get_disabled ''D1''
      (adbNext keyguardOS txt_shell_dumpsys_trust ''D1'' (world start)) = (True, ''true'', [])
   \<and> fst (CheckExistingLockScreen (NewAndroidLockScreenDisabler []) keyguardOS ''D1'' start)
       = (True, txt_Device_has_keyguard_enabled_detected_via_KeyguardService)
   \<and> fst (CheckExistingLockScreen (NewAndroidLockScreenDisabler []) keyguardOS ''D1'' start)
       \<noteq> (False, txt_No_lock_screen_detected)
   \<and> filter isExec (trace (snd (CheckExistingLockScreen (NewAndroidLockScreenDisabler [])
                                   keyguardOS ''D1'' start)))
       = [Exec (adbArgv keyguardOS txt_shell_dumpsys_trust ''D1''),
          Exec (adbArgv keyguardOS txt_shell_locksettings_get_disabled ''D1''),
          Exec (adbArgv keyguardOS txt_shell_dumpsys_activity_services_KeyguardService ''D1'')]"
  using CheckExistingLockScreen_suppressed [where os = keyguardOS and d = "''D1''" and s = start
          and a = "NewAndroidLockScreenDisabler []" and e = "[]", OF refl _ refl refl refl refl refl]
  by (simp add: keyguardOS_answers reports_secure reports_failed lockInspection_def start_def)

text \<open>
  C4. When \<open>locksettings get-disabled\<close> succeeds with the output \<open>true\<close>, the
  inspection goes on to the later heuristics. It returns \<open>(false, No lock screen detected)\<close>
  exactly when neither the trust dump before it nor the keyguard-service dump, the
  \<open>lock_pattern_enabled\<close> and \<open>lockscreen.password_type\<close> settings and the device-policy
  dump after it report a lock; the value of \<open>lockscreen.disabled\<close> is read and ignored. When
  the trust dump reports nothing, the commands run are the first 3, 4, 5 or all 7 of the
  inspection, up to the heuristic that reports.
\<close>

theorem CheckExistingLockScreen_disabled_true:
  assumes w1: "w1 = adbNext os txt_shell_dumpsys_trust d (world s)"
    and gd: "adbAnswer os txt_shell_locksettings_get_disabled d w1 = (True, ''true'', e)"
    and w2: "w2 = adbNext os txt_shell_locksettings_get_disabled d w1"
    and w3: "w3 = adbNext os txt_shell_dumpsys_activity_services_KeyguardService d w2"
    and w4: "w4 = adbNext os txt_shell_settings_get_secure_lock_pattern_enabled d w3"
    and w5: "w5 = adbNext os txt_shell_settings_get_secure_lockscreen_password_type d w4"
    and w6: "w6 = adbNext os txt_shell_settings_get_secure_lockscreen_disabled d w5"
  shows "(fst (CheckExistingLockScreen a os d s) = (False, txt_No_lock_screen_detected))
         = (\<not> reports os [txt_isdevicesecure_true, txt_iskeyguardsecure_true]
                (adbAnswer os txt_shell_dumpsys_trust d (world s))
            \<and> \<not> reports os [txt_secure_true, txt_enabled_true]
                (adbAnswer os txt_shell_dumpsys_activity_services_KeyguardService d w2)
            \<and> \<not> patternOn (adbAnswer os txt_shell_settings_get_secure_lock_pattern_enabled d w3)
            \<and> \<not> passwordOn (adbAnswer os txt_shell_settings_get_secure_lockscreen_password_type d w4)
            \<and> \<not> reports os [txt_passwordquality, txt_minimumpasswordlength]
                (adbAnswer os txt_shell_dumpsys_device_policy d w6))
     \<and> (\<not> reports os [txt_isdevicesecure_true, txt_iskeyguardsecure_true]
                (adbAnswer os txt_shell_dumpsys_trust d (world s)) \<longrightarrow>
          filter isExec (trace (snd (CheckExistingLockScreen a os d s)))
          = filter isExec (trace s) @ map (\<lambda>c. Exec (adbArgv os c d))
              (take (if reports os [txt_secure_true, txt_enabled_true]
                (adbAnswer os txt_shell_dumpsys_activity_services_KeyguardService d w2)
                     then 3
                     else if patternOn (adbAnswer os txt_shell_settings_get_secure_lock_pattern_enabled d w3)
                     then 4
                     else if passwordOn (adbAnswer os txt_shell_settings_get_secure_lockscreen_password_type d w4)
                     then 5 else 7) lockInspection))"
proof -
  note run = CheckExistingLockScreen_suppressed [OF w1 gd w2 w3 w4 w5 w6, of a]
  show ?thesis
    unfolding run [THEN conjunct1] run [THEN conjunct2] by simp
qed

theorem CheckExistingLockScreen_disabled_true_witness:
  "adbAnswer disabledOS txt_shell_locksettings_get_disabled ''D1''
      (adbNext disabledOS txt_shell_dumpsys_trust ''D1'' (world start)) = (True, ''true'', [])
   \<and> fst (CheckExistingLockScreen (NewAndroidLockScreenDisabler []) disabledOS ''D1'' start)
       = (False, txt_No_lock_screen_detected)
   \<and> filter isExec (trace (snd (CheckExistingLockScreen (NewAndroidLockScreenDisabler [])
                                   disabledOS ''D1'' start)))
       = map (\<lambda>c. Exec (adbArgv disabledOS c ''D1'')) lockInspection"
  using CheckExistingLockScreen_disabled_true [where os = disabledOS and d = "''D1''" and s = start
          and a = "NewAndroidLockScreenDisabler []" and e = "[]", OF refl _ refl refl refl refl refl]
  by (simp add: disabledOS_answers reports_failed patternOn_def passwordOn_def start_def
        lockInspection_all)

end
